theory Spec2Isabelle
  imports Main "HOL-Library.Word" "HOL-Library.Monad_Syntax"
begin

unbundle bit_operations_syntax

section \<open>The structured buffer under the envelope\<close>

text \<open>
  The generated accessors of the envelope (the second file of rpc/transport.go) are thin
  wrappers over \<open>capnp.Struct\<close>, \<open>capnp.List\<close>, \<open>capnp.Ptr\<close> and
  \<open>capnp.Message\<close>. These belong to the capnp package of the repository, which is not
  among the sources at hand. This section models that package from what the specification
  says about it: "a message has a root pointer, structs have fixed data/pointer layout,
  lists and text are opaque container primitives", "an index/offset-addressed buffer
  (arena + typed views)". Where the specification is silent (byte order, what an access
  out of bounds does), the text of the definition says what was chosen. The accessors
  themselves follow in the next section, translated from the source.
\<close>

type_synonym byte = "8 word"
type_synonym u16 = "16 word"
type_synonym u32 = "32 word"
type_synonym u64 = "64 word"

text \<open>
  Modelled from the spec: \<open>capnp.Ptr\<close>. A pointer is the zero pointer, a pointer to a
  struct (the index of its cell in the arena) or a pointer to a list of structs (the
  index of its first cell and its length, "length set at creation and not resizable
  afterward").
\<close>

datatype Ptr = NullPtr | StructPtr nat | ListPtr nat nat

text \<open>
  Modelled from the spec: a pointer slot of a struct. Besides a pointer it can hold a
  malformed pointer word, as a frame received from a peer may: reading it is an error
  ("malformed buffer").
\<close>

datatype slot = Good Ptr | Malformed string

text \<open>
  Modelled from the spec: the body of one struct, "fixed data/pointer layout": its data
  section, in bytes, and its pointer section.
\<close>

record cell =
  cdata :: "byte list"
  cptrs :: "slot list"

text \<open>
  Modelled from the spec: the history of an arena, so that the order of writes can be
  stated ("first set the discriminant, then the payload pointer, in that order"). A write
  is of data bytes (cell, byte offset, length), of a bit (cell, bit offset), of a pointer
  slot (cell, index) or of the root pointer.
\<close>

datatype written = WData nat nat nat | WBit nat nat | WPtr nat nat | WRoot

text \<open>
  Modelled from the spec: \<open>capnp.Message\<close> with its arena and segment, "an
  index/offset-addressed buffer (arena + typed views)" with a root pointer. The writes
  are kept oldest first. \<open>room\<close> is the number of 8-byte words the arena can still
  supply; an allocation that needs more returns an error.
\<close>

record arena =
  cells :: "cell list"
  root :: slot
  writes :: "written list"
  room :: nat

text \<open>
  Modelled from the spec: \<open>capnp.Struct\<close>, a typed view of one struct. The zero value
  \<open>Struct{}\<close> views nothing.
\<close>

datatype Struct = ZeroStruct | StructAt nat

text \<open>
  Modelled from the spec: \<open>capnp.List\<close>, a typed view of a list of structs: its first
  cell and its length. The zero value \<open>List{}\<close> views nothing.
\<close>

datatype List = ZeroList | ListAt nat nat

text \<open>Modelled from the spec: \<open>capnp.ObjectSize\<close>, the layout of a struct to allocate.\<close>

record ObjectSize =
  DataSize :: nat
  PointerCount :: nat

text \<open>
  Modelled from the spec: the byte order of an integer in the data section. The
  specification does not give it; little-endian is taken. \<open>le_bytes n v\<close> are the \<open>n\<close>
  low bytes of \<open>v\<close>.
\<close>

fun le_bytes :: "nat \<Rightarrow> nat \<Rightarrow> byte list" where
  "le_bytes 0 v = []"
| "le_bytes (Suc n) v = of_nat (v mod 256) # le_bytes n (v div 256)"

text \<open>Modelled from the spec: the value of little-endian bytes, the inverse of \<open>le_bytes\<close>.\<close>

fun le_value :: "byte list \<Rightarrow> nat" where
  "le_value [] = 0"
| "le_value (b # bs) = unat b + 256 * le_value bs"

text \<open>
  Modelled from the spec: the cell a struct views, with its index. The zero struct views
  none, nor does a view beyond the cells of the arena.
\<close>

definition cell_of :: "arena \<Rightarrow> Struct \<Rightarrow> (nat \<times> cell) option" where
  "cell_of ar s =
     (case s of
        ZeroStruct \<Rightarrow> None
      | StructAt a \<Rightarrow> if a < length (cells ar) then Some (a, cells ar ! a) else None)"

text \<open>
  Modelled from the spec: the integer of \<open>n\<close> bytes at byte offset \<open>off\<close> of the data
  section, shared by the readers below. A read outside the data section yields zero (the
  default of a field the struct does not have), as does a read of the zero struct.
\<close>

definition get_data :: "arena \<Rightarrow> Struct \<Rightarrow> nat \<Rightarrow> nat \<Rightarrow> nat" where
  "get_data ar s off n =
     (case cell_of ar s of
        None \<Rightarrow> 0
      | Some (a, c) \<Rightarrow>
          if off + n \<le> length (cdata c) then le_value (take n (drop off (cdata c))) else 0)"

text \<open>Modelled from the spec: \<open>Struct.Uint16(off)\<close>.\<close>

definition Struct_Uint16 :: "arena \<Rightarrow> Struct \<Rightarrow> nat \<Rightarrow> u16" where
  "Struct_Uint16 ar s off = of_nat (get_data ar s off 2)"

text \<open>Modelled from the spec: \<open>Struct.Uint32(off)\<close>.\<close>

definition Struct_Uint32 :: "arena \<Rightarrow> Struct \<Rightarrow> nat \<Rightarrow> u32" where
  "Struct_Uint32 ar s off = of_nat (get_data ar s off 4)"

text \<open>Modelled from the spec: \<open>Struct.Uint64(off)\<close>.\<close>

definition Struct_Uint64 :: "arena \<Rightarrow> Struct \<Rightarrow> nat \<Rightarrow> u64" where
  "Struct_Uint64 ar s off = of_nat (get_data ar s off 8)"

text \<open>
  Modelled from the spec: \<open>Struct.Bit(n)\<close>, bit \<open>n mod 8\<close> of byte \<open>n div 8\<close> of the
  data section; false outside it.
\<close>

definition Struct_Bit :: "arena \<Rightarrow> Struct \<Rightarrow> nat \<Rightarrow> bool" where
  "Struct_Bit ar s n =
     (case cell_of ar s of
        None \<Rightarrow> False
      | Some (a, c) \<Rightarrow>
          if n div 8 < length (cdata c) then bit (cdata c ! (n div 8)) (n mod 8) else False)"

text \<open>
  Modelled from the spec: overwriting part of a data section. \<open>patch d off bs\<close> is \<open>d\<close>
  with the bytes \<open>bs\<close> written over it from offset \<open>off\<close>.
\<close>

definition patch :: "'a list \<Rightarrow> nat \<Rightarrow> 'a list \<Rightarrow> 'a list" where
  "patch d off bs = take off d @ bs @ drop (off + length bs) d"

text \<open>
  Modelled from the spec: writing the integer \<open>v\<close> in \<open>n\<close> bytes at byte offset
  \<open>off\<close>, shared by the writers below. The Go writers return nothing; a write outside
  the data section, or through the zero struct, is taken to panic: \<open>None\<close> is the panic,
  and nothing has been written then.
\<close>

definition set_data :: "Struct \<Rightarrow> nat \<Rightarrow> nat \<Rightarrow> nat \<Rightarrow> arena \<Rightarrow> arena option" where
  "set_data s off n v ar =
     (case cell_of ar s of
        None \<Rightarrow> None
      | Some (a, c) \<Rightarrow>
          if off + n \<le> length (cdata c)
          then Some (ar\<lparr>cells := (cells ar)[a := c\<lparr>cdata := patch (cdata c) off (le_bytes n v)\<rparr>],
                       writes := writes ar @ [WData a off n]\<rparr>)
          else None)"

text \<open>Modelled from the spec: \<open>Struct.SetUint16(off, v)\<close>.\<close>

definition Struct_SetUint16 :: "Struct \<Rightarrow> nat \<Rightarrow> u16 \<Rightarrow> arena \<Rightarrow> arena option" where
  "Struct_SetUint16 s off v ar = set_data s off 2 (unat v) ar"

text \<open>Modelled from the spec: \<open>Struct.SetUint32(off, v)\<close>.\<close>

definition Struct_SetUint32 :: "Struct \<Rightarrow> nat \<Rightarrow> u32 \<Rightarrow> arena \<Rightarrow> arena option" where
  "Struct_SetUint32 s off v ar = set_data s off 4 (unat v) ar"

text \<open>Modelled from the spec: \<open>Struct.SetUint64(off, v)\<close>.\<close>

definition Struct_SetUint64 :: "Struct \<Rightarrow> nat \<Rightarrow> u64 \<Rightarrow> arena \<Rightarrow> arena option" where
  "Struct_SetUint64 s off v ar = set_data s off 8 (unat v) ar"

text \<open>
  Modelled from the spec: \<open>Struct.SetBit(n, v)\<close>, which sets or clears the bit that
  \<open>Struct.Bit(n)\<close> reads, and panics outside the data section.
\<close>

definition Struct_SetBit :: "Struct \<Rightarrow> nat \<Rightarrow> bool \<Rightarrow> arena \<Rightarrow> arena option" where
  "Struct_SetBit s n v ar =
     (case cell_of ar s of
        None \<Rightarrow> None
      | Some (a, c) \<Rightarrow>
          if n div 8 < length (cdata c)
          then Some (ar\<lparr>cells := (cells ar)[a := c\<lparr>cdata :=
                         (cdata c)[n div 8 :=
                            (if v then set_bit (n mod 8) (cdata c ! (n div 8))
                             else unset_bit (n mod 8) (cdata c ! (n div 8)))]\<rparr>],
                       writes := writes ar @ [WBit a n]\<rparr>)
          else None)"

text \<open>
  Modelled from the spec: reading a pointer slot, which yields the pointer and an error.
  A malformed slot reads as the zero pointer with an error.
\<close>

definition read_slot :: "slot \<Rightarrow> Ptr \<times> string option" where
  "read_slot sl = (case sl of Good p \<Rightarrow> (p, None) | Malformed e \<Rightarrow> (NullPtr, Some e))"

text \<open>
  Modelled from the spec: \<open>Struct.Ptr(i)\<close>. "Reading an absent/zero pointer for a
  struct-typed field yields a valid zero-valued struct rather than a null-dereference":
  a slot the struct does not have reads as the zero pointer, without error.
\<close>

definition Struct_Ptr :: "arena \<Rightarrow> Struct \<Rightarrow> nat \<Rightarrow> Ptr \<times> string option" where
  "Struct_Ptr ar s i =
     (case cell_of ar s of
        None \<Rightarrow> (NullPtr, None)
      | Some (a, c) \<Rightarrow> if i < length (cptrs c) then read_slot (cptrs c ! i) else (NullPtr, None))"

text \<open>
  Modelled from the spec: \<open>Struct.SetPtr(i, p)\<close>, which returns an error. A write to a
  slot the struct does not have is taken to panic (\<open>None\<close>); within one arena the write
  itself does not fail.
\<close>

definition Struct_SetPtr :: "Struct \<Rightarrow> nat \<Rightarrow> Ptr \<Rightarrow> arena \<Rightarrow> (string option \<times> arena) option" where
  "Struct_SetPtr s i p ar =
     (case cell_of ar s of
        None \<Rightarrow> None
      | Some (a, c) \<Rightarrow>
          if i < length (cptrs c)
          then Some (None, ar\<lparr>cells := (cells ar)[a := c\<lparr>cptrs := (cptrs c)[i := Good p]\<rparr>],
                              writes := writes ar @ [WPtr a i]\<rparr>)
          else None)"

text \<open>Modelled from the spec: \<open>Struct.ToPtr()\<close>, the pointer to the struct viewed.\<close>

definition Struct_ToPtr :: "Struct \<Rightarrow> Ptr" where
  "Struct_ToPtr s = (case s of ZeroStruct \<Rightarrow> NullPtr | StructAt a \<Rightarrow> StructPtr a)"

text \<open>Modelled from the spec: \<open>List.ToPtr()\<close>, the pointer to the list viewed.\<close>

definition List_ToPtr :: "List \<Rightarrow> Ptr" where
  "List_ToPtr l = (case l of ZeroList \<Rightarrow> NullPtr | ListAt b n \<Rightarrow> ListPtr b n)"

text \<open>
  Modelled from the spec: \<open>Ptr.Struct()\<close>, the struct a pointer points to; the zero
  struct when it points to none ("a valid zero-valued struct").
\<close>

definition Ptr_Struct :: "Ptr \<Rightarrow> Struct" where
  "Ptr_Struct p = (case p of StructPtr a \<Rightarrow> StructAt a | _ \<Rightarrow> ZeroStruct)"

text \<open>Modelled from the spec: \<open>Ptr.List()\<close>, the list a pointer points to, or the zero list.\<close>

definition Ptr_List :: "Ptr \<Rightarrow> List" where
  "Ptr_List p = (case p of ListPtr b n \<Rightarrow> ListAt b n | _ \<Rightarrow> ZeroList)"

text \<open>Modelled from the spec: \<open>Ptr.IsValid()\<close>, whether the pointer is not the zero pointer.\<close>

definition Ptr_IsValid :: "Ptr \<Rightarrow> bool" where
  "Ptr_IsValid p = (p \<noteq> NullPtr)"

text \<open>Modelled from the spec: \<open>List.Len()\<close>, the "length set at creation".\<close>

definition List_Len :: "List \<Rightarrow> nat" where
  "List_Len l = (case l of ZeroList \<Rightarrow> 0 | ListAt b n \<Rightarrow> n)"

text \<open>
  Modelled from the spec: \<open>List.Struct(i)\<close>, the element at index \<open>i\<close> of a
  "fixed-shape element-addressable" list. An index out of range is taken to panic
  (\<open>None\<close>).
\<close>

definition List_Struct :: "List \<Rightarrow> int \<Rightarrow> Struct option" where
  "List_Struct l i =
     (case l of
        ZeroList \<Rightarrow> None
      | ListAt b n \<Rightarrow> if 0 \<le> i \<and> i < int n then Some (StructAt (b + nat i)) else None)"

text \<open>
  Modelled from the spec: the words a struct of a given size takes in the arena, its data
  section padded to whole words.
\<close>

definition words_of :: "ObjectSize \<Rightarrow> nat" where
  "words_of sz = (DataSize sz + 7) div 8 + PointerCount sz"

text \<open>Modelled from the spec: a newly allocated struct: zeroed data, zero pointers.\<close>

definition zero_cell :: "ObjectSize \<Rightarrow> cell" where
  "zero_cell sz =
     \<lparr> cdata = replicate (8 * ((DataSize sz + 7) div 8)) 0,
       cptrs = replicate (PointerCount sz) (Good NullPtr) \<rparr>"

text \<open>
  Modelled from the spec: \<open>capnp.NewStruct(seg, sz)\<close>, which returns the struct and an
  error. It fails when the arena lacks the room and allocates a new, zeroed cell
  otherwise.
\<close>

definition capnp_NewStruct :: "ObjectSize \<Rightarrow> arena \<Rightarrow> (Struct \<times> string option) \<times> arena" where
  "capnp_NewStruct sz ar =
     (if room ar < words_of sz then ((ZeroStruct, Some ''capnp: out of space''), ar)
      else ((StructAt (length (cells ar)), None),
            ar\<lparr>cells := cells ar @ [zero_cell sz], room := room ar - words_of sz\<rparr>))"

text \<open>
  Modelled from the spec: \<open>capnp.NewRootStruct(seg, sz)\<close>, which allocates a struct and
  makes it the root of the message.
\<close>

definition capnp_NewRootStruct :: "ObjectSize \<Rightarrow> arena \<Rightarrow> (Struct \<times> string option) \<times> arena" where
  "capnp_NewRootStruct sz ar =
     (case capnp_NewStruct sz ar of
        ((st, Some e), ar1) \<Rightarrow> ((st, Some e), ar1)
      | ((st, None), ar1) \<Rightarrow>
          ((st, None), ar1\<lparr>root := Good (Struct_ToPtr st), writes := writes ar1 @ [WRoot]\<rparr>))"

text \<open>
  Modelled from the spec: \<open>capnp.NewCompositeList(seg, sz, n)\<close>, which allocates a list
  of \<open>n\<close> zeroed structs, one tag word besides them. A negative length is an error.
\<close>

definition capnp_NewCompositeList :: "ObjectSize \<Rightarrow> int \<Rightarrow> arena \<Rightarrow> (List \<times> string option) \<times> arena" where
  "capnp_NewCompositeList sz n ar =
     (if n < 0 \<or> room ar < 1 + nat n * words_of sz
      then ((ZeroList, Some ''capnp: out of space''), ar)
      else ((ListAt (length (cells ar)) (nat n), None),
            ar\<lparr>cells := cells ar @ replicate (nat n) (zero_cell sz),
               room := room ar - (1 + nat n * words_of sz)\<rparr>))"

text \<open>Modelled from the spec: \<open>Message.RootPtr()\<close>, "a message has a root pointer".\<close>

definition Message_RootPtr :: "arena \<Rightarrow> Ptr \<times> string option" where
  "Message_RootPtr ar = read_slot (root ar)"

text \<open>
  Modelled from the spec: the frame of the frame codec, which "must encode/decode
  losslessly": the cells and the root pointer of the message.
\<close>

type_synonym frame = "cell list \<times> slot"

text \<open>Modelled from the spec: the frame \<open>Encoder.Encode\<close> writes for a message.\<close>

definition frame_of :: "arena \<Rightarrow> frame" where
  "frame_of ar = (cells ar, root ar)"

text \<open>
  Modelled from the spec: the message \<open>Decoder.Decode\<close> returns for a frame, with the
  content of the frame, no history and no room.
\<close>

definition message_of :: "frame \<Rightarrow> arena" where
  "message_of f = \<lparr> cells = fst f, root = snd f, writes = [], room = 0 \<rparr>"

text \<open>
  Modelled from the spec: the message that \<open>Message{}\<close>, the zero struct, lives in: an
  empty one.
\<close>

definition no_message :: arena where
  "no_message = \<lparr> cells = [], root = Good NullPtr, writes = [], room = 0 \<rparr>"

section \<open>The envelope accessors of the generated code\<close>

text \<open>
  Each Go method on a struct wrapper (\<open>Message\<close>, \<open>Call\<close>, ...) becomes a function
  named \<open>Type_Method\<close>. A getter takes the arena and the struct; a setter takes the
  struct, its arguments and the arena, and returns the new arena, or \<open>None\<close> where the
  Go code panics. The wrapper types are all \<open>capnp.Struct\<close>.
\<close>

subsection \<open>Message\<close>

definition NewRootMessage :: "arena \<Rightarrow> (Struct \<times> string option) \<times> arena" where
  "NewRootMessage ar = capnp_NewRootStruct \<lparr>DataSize = 8, PointerCount = 1\<rparr> ar"

definition ReadRootMessage :: "arena \<Rightarrow> Struct \<times> string option" where
  "ReadRootMessage msg = (let (rt, err) = Message_RootPtr msg in (Ptr_Struct rt, err))"

definition Message_Which_call :: u16 where
  "Message_Which_call = 2"

definition Message_Which :: "arena \<Rightarrow> Struct \<Rightarrow> u16" where
  "Message_Which ar s = Struct_Uint16 ar s 0"

definition Message_HasUnimplemented :: "arena \<Rightarrow> Struct \<Rightarrow> bool" where
  "Message_HasUnimplemented ar s =
     (if Struct_Uint16 ar s 0 \<noteq> 0 then False
      else let (p, err) = Struct_Ptr ar s 0 in Ptr_IsValid p \<or> err \<noteq> None)"

definition Message_HasAbort :: "arena \<Rightarrow> Struct \<Rightarrow> bool" where
  "Message_HasAbort ar s =
     (if Struct_Uint16 ar s 0 \<noteq> 1 then False
      else let (p, err) = Struct_Ptr ar s 0 in Ptr_IsValid p \<or> err \<noteq> None)"

definition Message_HasBootstrap :: "arena \<Rightarrow> Struct \<Rightarrow> bool" where
  "Message_HasBootstrap ar s =
     (if Struct_Uint16 ar s 0 \<noteq> 8 then False
      else let (p, err) = Struct_Ptr ar s 0 in Ptr_IsValid p \<or> err \<noteq> None)"

definition Message_HasCall :: "arena \<Rightarrow> Struct \<Rightarrow> bool" where
  "Message_HasCall ar s =
     (if Struct_Uint16 ar s 0 \<noteq> 2 then False
      else let (p, err) = Struct_Ptr ar s 0 in Ptr_IsValid p \<or> err \<noteq> None)"

definition Message_HasReturn :: "arena \<Rightarrow> Struct \<Rightarrow> bool" where
  "Message_HasReturn ar s =
     (if Struct_Uint16 ar s 0 \<noteq> 3 then False
      else let (p, err) = Struct_Ptr ar s 0 in Ptr_IsValid p \<or> err \<noteq> None)"

definition Message_HasFinish :: "arena \<Rightarrow> Struct \<Rightarrow> bool" where
  "Message_HasFinish ar s =
     (if Struct_Uint16 ar s 0 \<noteq> 4 then False
      else let (p, err) = Struct_Ptr ar s 0 in Ptr_IsValid p \<or> err \<noteq> None)"

definition Message_HasResolve :: "arena \<Rightarrow> Struct \<Rightarrow> bool" where
  "Message_HasResolve ar s =
     (if Struct_Uint16 ar s 0 \<noteq> 5 then False
      else let (p, err) = Struct_Ptr ar s 0 in Ptr_IsValid p \<or> err \<noteq> None)"

definition Message_HasRelease :: "arena \<Rightarrow> Struct \<Rightarrow> bool" where
  "Message_HasRelease ar s =
     (if Struct_Uint16 ar s 0 \<noteq> 6 then False
      else let (p, err) = Struct_Ptr ar s 0 in Ptr_IsValid p \<or> err \<noteq> None)"

definition Message_HasDisembargo :: "arena \<Rightarrow> Struct \<Rightarrow> bool" where
  "Message_HasDisembargo ar s =
     (if Struct_Uint16 ar s 0 \<noteq> 13 then False
      else let (p, err) = Struct_Ptr ar s 0 in Ptr_IsValid p \<or> err \<noteq> None)"

definition Message_HasObsoleteSave :: "arena \<Rightarrow> Struct \<Rightarrow> bool" where
  "Message_HasObsoleteSave ar s =
     (if Struct_Uint16 ar s 0 \<noteq> 7 then False
      else let (p, err) = Struct_Ptr ar s 0 in Ptr_IsValid p \<or> err \<noteq> None)"

definition Message_HasObsoleteDelete :: "arena \<Rightarrow> Struct \<Rightarrow> bool" where
  "Message_HasObsoleteDelete ar s =
     (if Struct_Uint16 ar s 0 \<noteq> 9 then False
      else let (p, err) = Struct_Ptr ar s 0 in Ptr_IsValid p \<or> err \<noteq> None)"

definition Message_HasProvide :: "arena \<Rightarrow> Struct \<Rightarrow> bool" where
  "Message_HasProvide ar s =
     (if Struct_Uint16 ar s 0 \<noteq> 10 then False
      else let (p, err) = Struct_Ptr ar s 0 in Ptr_IsValid p \<or> err \<noteq> None)"

definition Message_HasAccept :: "arena \<Rightarrow> Struct \<Rightarrow> bool" where
  "Message_HasAccept ar s =
     (if Struct_Uint16 ar s 0 \<noteq> 11 then False
      else let (p, err) = Struct_Ptr ar s 0 in Ptr_IsValid p \<or> err \<noteq> None)"

definition Message_HasJoin :: "arena \<Rightarrow> Struct \<Rightarrow> bool" where
  "Message_HasJoin ar s =
     (if Struct_Uint16 ar s 0 \<noteq> 12 then False
      else let (p, err) = Struct_Ptr ar s 0 in Ptr_IsValid p \<or> err \<noteq> None)"

definition Message_Call :: "arena \<Rightarrow> Struct \<Rightarrow> Struct \<times> string option" where
  "Message_Call ar s = (let (p, err) = Struct_Ptr ar s 0 in (Ptr_Struct p, err))"

definition Message_SetCall :: "Struct \<Rightarrow> Struct \<Rightarrow> arena \<Rightarrow> (string option \<times> arena) option" where
  "Message_SetCall s v ar =
     (case Struct_SetUint16 s 0 2 ar of
        None \<Rightarrow> None
      | Some ar1 \<Rightarrow> Struct_SetPtr s 0 (Struct_ToPtr v) ar1)"

subsection \<open>MessageTarget\<close>

definition NewMessageTarget :: "arena \<Rightarrow> (Struct \<times> string option) \<times> arena" where
  "NewMessageTarget ar = capnp_NewStruct \<lparr>DataSize = 8, PointerCount = 1\<rparr> ar"

definition MessageTarget_Which :: "arena \<Rightarrow> Struct \<Rightarrow> u16" where
  "MessageTarget_Which ar s = Struct_Uint16 ar s 4"

definition MessageTarget_ImportedCap :: "arena \<Rightarrow> Struct \<Rightarrow> u32" where
  "MessageTarget_ImportedCap ar s = Struct_Uint32 ar s 0"

definition MessageTarget_SetImportedCap :: "Struct \<Rightarrow> u32 \<Rightarrow> arena \<Rightarrow> arena option" where
  "MessageTarget_SetImportedCap s v ar =
     (case Struct_SetUint16 s 4 0 ar of
        None \<Rightarrow> None
      | Some ar1 \<Rightarrow> Struct_SetUint32 s 0 v ar1)"

subsection \<open>Call\<close>

definition NewCall :: "arena \<Rightarrow> (Struct \<times> string option) \<times> arena" where
  "NewCall ar = capnp_NewStruct \<lparr>DataSize = 24, PointerCount = 3\<rparr> ar"

definition Call_QuestionId :: "arena \<Rightarrow> Struct \<Rightarrow> u32" where
  "Call_QuestionId ar s = Struct_Uint32 ar s 0"

definition Call_SetQuestionId :: "Struct \<Rightarrow> u32 \<Rightarrow> arena \<Rightarrow> arena option" where
  "Call_SetQuestionId s v ar = Struct_SetUint32 s 0 v ar"

definition Call_Target :: "arena \<Rightarrow> Struct \<Rightarrow> Struct \<times> string option" where
  "Call_Target ar s = (let (p, err) = Struct_Ptr ar s 0 in (Ptr_Struct p, err))"

definition Call_SetTarget :: "Struct \<Rightarrow> Struct \<Rightarrow> arena \<Rightarrow> (string option \<times> arena) option" where
  "Call_SetTarget s v ar = Struct_SetPtr s 0 (Struct_ToPtr v) ar"

text \<open>
  \<open>NewTarget\<close> allocates the target and stores the pointer to it. On an allocation
  error it returns the zero struct and the error; where \<open>SetPtr\<close> panics, so does it.
\<close>

definition Call_NewTarget :: "Struct \<Rightarrow> arena \<Rightarrow> ((Struct \<times> string option) \<times> arena) option" where
  "Call_NewTarget s ar =
     (case NewMessageTarget ar of
        ((ss, Some e), ar1) \<Rightarrow> Some ((ZeroStruct, Some e), ar1)
      | ((ss, None), ar1) \<Rightarrow>
          (case Struct_SetPtr s 0 (Struct_ToPtr ss) ar1 of
             None \<Rightarrow> None
           | Some (err, ar2) \<Rightarrow> Some ((ss, err), ar2)))"

definition Call_InterfaceId :: "arena \<Rightarrow> Struct \<Rightarrow> u64" where
  "Call_InterfaceId ar s = Struct_Uint64 ar s 8"

definition Call_SetInterfaceId :: "Struct \<Rightarrow> u64 \<Rightarrow> arena \<Rightarrow> arena option" where
  "Call_SetInterfaceId s v ar = Struct_SetUint64 s 8 v ar"

definition Call_MethodId :: "arena \<Rightarrow> Struct \<Rightarrow> u16" where
  "Call_MethodId ar s = Struct_Uint16 ar s 4"

definition Call_SetMethodId :: "Struct \<Rightarrow> u16 \<Rightarrow> arena \<Rightarrow> arena option" where
  "Call_SetMethodId s v ar = Struct_SetUint16 s 4 v ar"

subsection \<open>Return and Finish\<close>

definition NewReturn :: "arena \<Rightarrow> (Struct \<times> string option) \<times> arena" where
  "NewReturn ar = capnp_NewStruct \<lparr>DataSize = 16, PointerCount = 1\<rparr> ar"

definition Return_Which :: "arena \<Rightarrow> Struct \<Rightarrow> u16" where
  "Return_Which ar s = Struct_Uint16 ar s 6"

definition Return_ReleaseParamCaps :: "arena \<Rightarrow> Struct \<Rightarrow> bool" where
  "Return_ReleaseParamCaps ar s = (\<not> Struct_Bit ar s 32)"

definition Return_SetReleaseParamCaps :: "Struct \<Rightarrow> bool \<Rightarrow> arena \<Rightarrow> arena option" where
  "Return_SetReleaseParamCaps s v ar = Struct_SetBit s 32 (\<not> v) ar"

definition Return_HasResults :: "arena \<Rightarrow> Struct \<Rightarrow> bool" where
  "Return_HasResults ar s =
     (if Struct_Uint16 ar s 6 \<noteq> 0 then False
      else let (p, err) = Struct_Ptr ar s 0 in Ptr_IsValid p \<or> err \<noteq> None)"

definition Return_HasException :: "arena \<Rightarrow> Struct \<Rightarrow> bool" where
  "Return_HasException ar s =
     (if Struct_Uint16 ar s 6 \<noteq> 1 then False
      else let (p, err) = Struct_Ptr ar s 0 in Ptr_IsValid p \<or> err \<noteq> None)"

definition Return_HasAcceptFromThirdParty :: "arena \<Rightarrow> Struct \<Rightarrow> bool" where
  "Return_HasAcceptFromThirdParty ar s =
     (if Struct_Uint16 ar s 6 \<noteq> 5 then False
      else let (p, err) = Struct_Ptr ar s 0 in Ptr_IsValid p \<or> err \<noteq> None)"

definition NewFinish :: "arena \<Rightarrow> (Struct \<times> string option) \<times> arena" where
  "NewFinish ar = capnp_NewStruct \<lparr>DataSize = 8, PointerCount = 0\<rparr> ar"

definition Finish_ReleaseResultCaps :: "arena \<Rightarrow> Struct \<Rightarrow> bool" where
  "Finish_ReleaseResultCaps ar s = (\<not> Struct_Bit ar s 32)"

definition Finish_SetReleaseResultCaps :: "Struct \<Rightarrow> bool \<Rightarrow> arena \<Rightarrow> arena option" where
  "Finish_SetReleaseResultCaps s v ar = Struct_SetBit s 32 (\<not> v) ar"

subsection \<open>CapDescriptor\<close>

definition CapDescriptor_Which :: "arena \<Rightarrow> Struct \<Rightarrow> u16" where
  "CapDescriptor_Which ar s = Struct_Uint16 ar s 0"

definition CapDescriptor_HasReceiverAnswer :: "arena \<Rightarrow> Struct \<Rightarrow> bool" where
  "CapDescriptor_HasReceiverAnswer ar s =
     (if Struct_Uint16 ar s 0 \<noteq> 4 then False
      else let (p, err) = Struct_Ptr ar s 0 in Ptr_IsValid p \<or> err \<noteq> None)"

definition CapDescriptor_HasThirdPartyHosted :: "arena \<Rightarrow> Struct \<Rightarrow> bool" where
  "CapDescriptor_HasThirdPartyHosted ar s =
     (if Struct_Uint16 ar s 0 \<noteq> 5 then False
      else let (p, err) = Struct_Ptr ar s 0 in Ptr_IsValid p \<or> err \<noteq> None)"

subsection \<open>PromisedAnswer and its transform\<close>

definition NewPromisedAnswer :: "arena \<Rightarrow> (Struct \<times> string option) \<times> arena" where
  "NewPromisedAnswer ar = capnp_NewStruct \<lparr>DataSize = 8, PointerCount = 1\<rparr> ar"

definition NewPromisedAnswer_Op_List :: "int \<Rightarrow> arena \<Rightarrow> (List \<times> string option) \<times> arena" where
  "NewPromisedAnswer_Op_List sz ar = capnp_NewCompositeList \<lparr>DataSize = 8, PointerCount = 0\<rparr> sz ar"

definition PromisedAnswer_Op_List_At :: "List \<Rightarrow> int \<Rightarrow> Struct option" where
  "PromisedAnswer_Op_List_At l i = List_Struct l i"

definition PromisedAnswer_Transform :: "arena \<Rightarrow> Struct \<Rightarrow> List \<times> string option" where
  "PromisedAnswer_Transform ar s = (let (p, err) = Struct_Ptr ar s 0 in (Ptr_List p, err))"

text \<open>
  \<open>NewTransform\<close> allocates the list and stores the pointer to it. On an allocation
  error it returns the zero list and the error; where \<open>SetPtr\<close> panics, so does it.
\<close>

definition PromisedAnswer_NewTransform ::
  "Struct \<Rightarrow> int \<Rightarrow> arena \<Rightarrow> ((List \<times> string option) \<times> arena) option" where
  "PromisedAnswer_NewTransform s n ar =
     (case NewPromisedAnswer_Op_List n ar of
        ((l, Some e), ar1) \<Rightarrow> Some ((ZeroList, Some e), ar1)
      | ((l, None), ar1) \<Rightarrow>
          (case Struct_SetPtr s 0 (List_ToPtr l) ar1 of
             None \<Rightarrow> None
           | Some (err, ar2) \<Rightarrow> Some ((l, err), ar2)))"

definition PromisedAnswer_Op_Which_noop :: u16 where
  "PromisedAnswer_Op_Which_noop = 0"

definition PromisedAnswer_Op_Which_getPointerField :: u16 where
  "PromisedAnswer_Op_Which_getPointerField = 1"

definition PromisedAnswer_Op_Which :: "arena \<Rightarrow> Struct \<Rightarrow> u16" where
  "PromisedAnswer_Op_Which ar s = Struct_Uint16 ar s 0"

definition PromisedAnswer_Op_GetPointerField :: "arena \<Rightarrow> Struct \<Rightarrow> u16" where
  "PromisedAnswer_Op_GetPointerField ar s = Struct_Uint16 ar s 2"

definition PromisedAnswer_Op_SetGetPointerField :: "Struct \<Rightarrow> u16 \<Rightarrow> arena \<Rightarrow> arena option" where
  "PromisedAnswer_Op_SetGetPointerField s v ar =
     (case Struct_SetUint16 s 0 1 ar of
        None \<Rightarrow> None
      | Some ar1 \<Rightarrow> Struct_SetUint16 s 2 v ar1)"

section \<open>The stream transport of rpc/transport.go\<close>

subsection \<open>Errors, the underlying stream and its history\<close>

text \<open>
  Go errors are values: a function returning \<open>error\<close> returns \<open>error option\<close>,
  \<open>None\<close> being \<open>nil\<close>. The three errors that transport.go creates itself with
  \<open>errors.New\<close> are constructors of their own; everything the underlying stream or
  the capnp library reports is \<open>ErrIO\<close> with its text.
\<close>

datatype error =
    ErrSendAlreadyClosed      \<comment> \<open>"rpc stream transport: send already closed"\<close>
  | ErrRecvAlreadyClosed      \<comment> \<open>"rpc stream transport: receive already closed"\<close>
  | ErrRecvOnClosedReceiver   \<comment> \<open>"RPC stream transport: receive on closed receiver"\<close>
  | ErrIO string

definition as_error :: "string option \<Rightarrow> error option" where
  "as_error e = map_option ErrIO e"

text \<open>
  A Go call either returns or panics. The transport keeps the state it had reached when a
  panic unwinds, so a panicking method still yields a state.
\<close>

datatype 'a outcome = Panic | Returned 'a

type_synonym time = int

text \<open>\<open>time.Time{}\<close>, the zero time.\<close>

definition zero_time :: time where
  "zero_time = 0"

text \<open>
  The calls the transport makes on the \<open>io.ReadWriteCloser\<close> it wraps.
  \<open>Encoder.Encode\<close> belongs to the capnp package; the writes it makes for one message
  ("a frame write is made via a bounded number of underlying stream writes") are taken
  together as one call that carries the frame.
\<close>

datatype call =
    SetWriteDeadline time
  | Encode frame
  | CloseWrite
  | CloseRead
  | Close

text \<open>
  The stream \<open>rwc\<close>: which of the optional interfaces \<open>writeDeadlineSetter\<close>,
  \<open>readCloser\<close> and \<open>writeCloser\<close> its dynamic type implements, how it answers a
  call given the calls made so far (\<open>None\<close> is the \<open>nil\<close> error), the calls made so
  far (oldest first), and what its reader still holds: the results of the coming
  \<open>Decoder.Decode\<close> calls, each a frame or a read error.
\<close>

record rwc =
  implSetWriteDeadline :: bool
  implCloseRead :: bool
  implCloseWrite :: bool
  respond :: "call list \<Rightarrow> call \<Rightarrow> string option"
  calls :: "call list"
  incoming :: "(string + frame) list"

definition invoke :: "call \<Rightarrow> rwc \<Rightarrow> error option \<times> rwc" where
  "invoke c r = (as_error (respond r (calls r) c), r\<lparr>calls := calls r @ [c]\<rparr>)"

subsection \<open>StreamTransport\<close>

text \<open>
  \<open>recv\<close> is a \<open>closerReceiver\<close> or a \<open>signalReceiver\<close>; the latter owns the channel
  \<open>close\<close>, of which the model keeps whether it has been closed.
\<close>

datatype receiver = closerReceiver | signalReceiver bool

text \<open>
  The struct. \<open>deadline\<close> and \<open>cw\<close> are interface values that are either \<open>rwc\<close>
  itself or \<open>nil\<close>: the model keeps whether they are non-nil. \<open>enc\<close> and \<open>c\<close> both
  are \<open>rwc\<close>. The mutex \<open>mu\<close> has no counterpart: the model runs one call at a time.
\<close>

record StreamTransport =
  deadline :: bool
  recv :: receiver
  cw :: bool
  closes :: "8 word"
  stream :: rwc

definition NewStreamTransport :: "rwc \<Rightarrow> StreamTransport" where
  "NewStreamTransport r =
     \<lparr> deadline = implSetWriteDeadline r,
       recv = (if implCloseRead r then closerReceiver else signalReceiver False),
       cw = implCloseWrite r,
       closes = 0,
       stream = r \<rparr>"

text \<open>A context, as far as the transport looks at it: \<open>ctx.Deadline()\<close>.\<close>

record Context =
  Deadline :: "time option"

text \<open>
  \<open>send\<close>, the closure \<open>NewMessage\<close> returns. It captures \<open>ctx\<close> and the message
  \<open>msg\<close>; the message is read when \<open>send\<close> runs.
\<close>

definition send :: "Context \<Rightarrow> arena \<Rightarrow> StreamTransport \<Rightarrow> error option \<times> StreamTransport" where
  "send ctx msg s =
     (let s1 = (if deadline s
                then (case Deadline ctx of
                        Some d \<Rightarrow> s\<lparr>stream := snd (invoke (SetWriteDeadline d) (stream s))\<rparr>
                      | None \<Rightarrow> s\<lparr>stream := snd (invoke (SetWriteDeadline zero_time) (stream s))\<rparr>)
                else s);
          (err, r) = invoke (Encode (frame_of msg)) (stream s1)
      in (err, s1\<lparr>stream := r\<rparr>))"

text \<open>\<open>cancel = func() {}\<close>.\<close>

definition cancel :: "StreamTransport \<Rightarrow> StreamTransport" where
  "cancel s = s"

text \<open>
  \<open>NewMessage\<close>. \<open>capnp.NewMessage(capnp.MultiSegment(nil))\<close> is a call into the
  capnp library that returns \<open>(msg, seg, err)\<close>: its result \<open>(msg, err)\<close> is the
  parameter \<open>fresh\<close>. Both errors are dropped. The result is the root struct, the message
  it lives in, \<open>send\<close>, \<open>cancel\<close> and the error.
\<close>

record new_message =
  nm_root :: Struct
  nm_msg :: arena
  nm_send :: "arena \<Rightarrow> StreamTransport \<Rightarrow> error option \<times> StreamTransport"
  nm_cancel :: "StreamTransport \<Rightarrow> StreamTransport"
  nm_err :: "error option"

definition NewMessage :: "StreamTransport \<Rightarrow> Context \<Rightarrow> arena \<times> string option \<Rightarrow> new_message" where
  "NewMessage s ctx fresh =
     (let (msg, _) = fresh;
          ((rmsg, _), msg1) = NewRootMessage msg
      in \<lparr> nm_root = rmsg, nm_msg = msg1, nm_send = send ctx, nm_cancel = cancel, nm_err = None \<rparr>)"

text \<open>
  Modelled from the spec: \<open>Decoder.Decode()\<close> of the capnp package, "a frame read
  returns either a complete envelope or an error". It takes the next result off the
  stream's reader; with nothing to read it blocks, and the call does not return:
  \<open>None\<close>.
\<close>

definition Decode :: "rwc \<Rightarrow> ((arena \<times> error option) \<times> rwc) option" where
  "Decode r =
     (case incoming r of
        [] \<Rightarrow> None
      | Inl e # rest \<Rightarrow> Some ((no_message, Some (ErrIO e)), r\<lparr>incoming := rest\<rparr>)
      | Inr f # rest \<Rightarrow> Some ((message_of f, None), r\<lparr>incoming := rest\<rparr>))"

text \<open>
  The body shared by the two receivers: decode, return the error if there is one, and
  read the root of the message otherwise. A returned \<open>rpccapnp.Message\<close> is the struct
  together with the message it lives in.
\<close>

definition decode_root :: "StreamTransport \<Rightarrow> (((Struct \<times> arena) \<times> error option) \<times> StreamTransport) option" where
  "decode_root s =
     (case Decode (stream s) of
        None \<Rightarrow> None
      | Some ((msg, Some e), r) \<Rightarrow> Some (((ZeroStruct, no_message), Some e), s\<lparr>stream := r\<rparr>)
      | Some ((msg, None), r) \<Rightarrow>
          (let (rt, err) = ReadRootMessage msg in Some (((rt, msg), as_error err), s\<lparr>stream := r\<rparr>)))"

text \<open>
  \<open>RecvMessage\<close>, which calls the receiver's. The \<open>signalReceiver\<close> first polls its
  channel; its second \<open>select\<close> is between the decode and a concurrent
  \<open>CloseRecv\<close>, which a single thread of calls does not have. The context is ignored.
\<close>

definition RecvMessage :: "StreamTransport \<Rightarrow> (((Struct \<times> arena) \<times> error option) \<times> StreamTransport) option" where
  "RecvMessage s =
     (case recv s of
        closerReceiver \<Rightarrow> decode_root s
      | signalReceiver closed \<Rightarrow>
          if closed then Some (((ZeroStruct, no_message), Some ErrRecvOnClosedReceiver), s)
          else decode_root s)"

text \<open>
  \<open>recv.CloseRecv()\<close>: the \<open>closerReceiver\<close> calls \<open>CloseRead\<close> on the stream; the
  \<open>signalReceiver\<close> closes its channel and returns \<open>nil\<close>. Closing a closed channel
  panics in Go.
\<close>

definition recv_CloseRecv :: "StreamTransport \<Rightarrow> error option outcome \<times> StreamTransport" where
  "recv_CloseRecv s =
     (case recv s of
        closerReceiver \<Rightarrow>
          (let (err, r) = invoke CloseRead (stream s) in (Returned err, s\<lparr>stream := r\<rparr>))
      | signalReceiver closed \<Rightarrow>
          (if closed then (Panic, s) else (Returned None, s\<lparr>recv := signalReceiver True\<rparr>)))"

text \<open>
  \<open>CloseSend\<close>. \<open>s.cw.CloseWrite()\<close> is a method call on an interface value: when
  \<open>s.cw\<close> is \<open>nil\<close> the call panics (nil pointer dereference), after the mask has been
  updated.
\<close>

definition CloseSend :: "StreamTransport \<Rightarrow> error option outcome \<times> StreamTransport" where
  "CloseSend s =
     (if closes s AND 1 = 1 then (Returned (Some ErrSendAlreadyClosed), s)
      else
        let s1 = s\<lparr>closes := closes s OR 1\<rparr>;
            done = (closes s1 = 3)
        in if \<not> cw s1 then (Panic, s1)
           else
             let (werr, r2) = invoke CloseWrite (stream s1);
                 s2 = s1\<lparr>stream := r2\<rparr>
             in if \<not> done then (Returned werr, s2)
                else
                  let (cerr, r3) = invoke Close (stream s2);
                      s3 = s2\<lparr>stream := r3\<rparr>
                  in if cerr \<noteq> None then (Returned cerr, s3)
                     else if werr \<noteq> None then (Returned werr, s3)
                     else (Returned None, s3))"

definition CloseRecv :: "StreamTransport \<Rightarrow> error option outcome \<times> StreamTransport" where
  "CloseRecv s =
     (if closes s AND 2 = 2 then (Returned (Some ErrRecvAlreadyClosed), s)
      else
        let s1 = s\<lparr>closes := closes s OR 2\<rparr>;
            done = (closes s1 = 3)
        in case recv_CloseRecv s1 of
             (Panic, s2) \<Rightarrow> (Panic, s2)
           | (Returned rerr, s2) \<Rightarrow>
               if \<not> done then (Returned rerr, s2)
               else
                 let (cerr, r3) = invoke Close (stream s2);
                     s3 = s2\<lparr>stream := r3\<rparr>
                 in if cerr \<noteq> None then (Returned cerr, s3)
                    else if rerr \<noteq> None then (Returned rerr, s3)
                    else (Returned None, s3))"

text \<open>How often the underlying stream's \<open>Close\<close> has been called.\<close>

definition close_count :: "StreamTransport \<Rightarrow> nat" where
  "close_count s = length (filter (\<lambda>c. c = Close) (calls (stream s)))"

section \<open>The scenarios of the specification\<close>

text \<open>
  The concrete scenarios are client code over the accessors and the transport. A
  scenario stops, with \<open>None\<close>, at the first panic and at the first error returned.
\<close>

definition ok :: "('a \<times> string option) \<times> arena \<Rightarrow> ('a \<times> arena) option" where
  "ok r = (case r of ((x, None), ar) \<Rightarrow> Some (x, ar) | ((x, Some e), ar) \<Rightarrow> None)"

definition ok_new :: "(('a \<times> string option) \<times> arena) option \<Rightarrow> ('a \<times> arena) option" where
  "ok_new r = (case r of None \<Rightarrow> None | Some x \<Rightarrow> ok x)"

definition ok_set :: "(string option \<times> arena) option \<Rightarrow> arena option" where
  "ok_set r = (case r of Some (None, ar) \<Rightarrow> Some ar | _ \<Rightarrow> None)"

text \<open>
  Modelled from the spec: the message \<open>capnp.NewMessage\<close> returns, "allocated fresh per
  outgoing message": no struct yet, no root, room for \<open>n\<close> words.
\<close>

definition new_arena :: "nat \<Rightarrow> arena" where
  "new_arena n = \<lparr> cells = [], root = Good NullPtr, writes = [], room = n \<rparr>"

text \<open>
  Scenario 1, building: a \<open>Call\<close> with \<open>questionId = 7\<close>, \<open>interfaceId = 0x1\<close>,
  \<open>methodId = 2\<close> and target \<open>importedCap(3)\<close>, set as the \<open>call\<close> branch of the
  envelope \<open>rmsg\<close>.
\<close>

definition call_scenario :: "Struct \<Rightarrow> arena \<Rightarrow> arena option" where
  "call_scenario rmsg ar = do {
     (call, ar1) \<leftarrow> ok (NewCall ar);
     ar2 \<leftarrow> ok_set (Message_SetCall rmsg call ar1);
     ar3 \<leftarrow> Call_SetQuestionId call 7 ar2;
     ar4 \<leftarrow> Call_SetInterfaceId call 1 ar3;
     ar5 \<leftarrow> Call_SetMethodId call 2 ar4;
     (tgt, ar6) \<leftarrow> ok_new (Call_NewTarget call ar5);
     MessageTarget_SetImportedCap tgt 3 ar6
   }"

text \<open>
  The two ends of a connection: the peer's stream \<open>p\<close> once what was written to \<open>r\<close>
  has arrived, its reader holding the frames that were encoded on \<open>r\<close>.
\<close>

definition encoded :: "call list \<Rightarrow> frame list" where
  "encoded cs = concat (map (\<lambda>c. case c of Encode f \<Rightarrow> [f] | _ \<Rightarrow> []) cs)"

definition connect :: "rwc \<Rightarrow> rwc \<Rightarrow> rwc" where
  "connect r p = p\<lparr>incoming := incoming p @ map Inr (encoded (calls r))\<rparr>"

text \<open>
  Scenario 1, end to end: the envelope is allocated by \<open>NewMessage\<close> on a transport
  over \<open>r\<close>, built, and sent; the peer, a transport over \<open>p\<close>, receives it and reads
  \<open>Which()\<close> and \<open>Call().QuestionId()\<close>.
\<close>

definition call_round_trip :: "nat \<Rightarrow> Context \<Rightarrow> rwc \<Rightarrow> rwc \<Rightarrow> (u16 \<times> u32) option" where
  "call_round_trip n ctx r p = do {
     let s = NewStreamTransport r;
     let nm = NewMessage s ctx (new_arena n, None);
     ar \<leftarrow> call_scenario (nm_root nm) (nm_msg nm);
     let (err, s') = nm_send nm ar s;
     (if err \<noteq> None then None
      else do {
        (((rm, msg), rerr), peer) \<leftarrow> RecvMessage (NewStreamTransport (connect (stream s') p));
        (if rerr \<noteq> None then None
         else let (call, cerr) = Message_Call msg rm
              in if cerr \<noteq> None then None
                 else Some (Message_Which msg rm, Call_QuestionId msg call))
      })
   }"

text \<open>
  Scenario 4, building: the transform of the \<open>PromisedAnswer\<close> \<open>pa\<close> is created with
  \<open>NewTransform(2)\<close>, and its elements are set to \<open>getPointerField(0)\<close> and
  \<open>getPointerField(1)\<close>.
\<close>

definition transform_scenario :: "Struct \<Rightarrow> arena \<Rightarrow> arena option" where
  "transform_scenario pa ar = do {
     (l, ar1) \<leftarrow> ok_new (PromisedAnswer_NewTransform pa 2 ar);
     op0 \<leftarrow> PromisedAnswer_Op_List_At l 0;
     ar2 \<leftarrow> PromisedAnswer_Op_SetGetPointerField op0 0 ar1;
     op1 \<leftarrow> PromisedAnswer_Op_List_At l 1;
     PromisedAnswer_Op_SetGetPointerField op1 1 ar2
   }"

text \<open>
  Scenario 4, reading back: the list behind \<open>Transform()\<close>, element by element from
  index 0 to \<open>Len() - 1\<close>, each as \<open>(Which(), GetPointerField())\<close>.
\<close>

definition read_transform :: "arena \<Rightarrow> Struct \<Rightarrow> (u16 \<times> u16) list option" where
  "read_transform ar pa =
     (case PromisedAnswer_Transform ar pa of
        (l, Some e) \<Rightarrow> None
      | (l, None) \<Rightarrow>
          those (map (\<lambda>i. map_option
                            (\<lambda>op. (PromisedAnswer_Op_Which ar op, PromisedAnswer_Op_GetPointerField ar op))
                            (PromisedAnswer_Op_List_At l (int i)))
                     [0..<List_Len l]))"

text \<open>
  An arena with one struct whose data carries the value 99 at byte offsets 0 and 6, the
  discriminant offsets of \<open>Message\<close>, \<open>CapDescriptor\<close> and \<open>Return\<close>, and whose
  pointer 0 is set.
\<close>

definition tagged_arena :: arena where
  "tagged_arena =
     \<lparr> cells = [\<lparr> cdata = [99, 0, 0, 0, 0, 0, 99, 0], cptrs = [Good (StructPtr 0)] \<rparr>],
       root = Good (StructPtr 0), writes = [], room = 0 \<rparr>"

text \<open>
  The layout of an arena: for each cell the length of its data section and the number of
  its pointer slots. Whether a write panics depends on the layout alone.
\<close>

definition shape :: "arena \<Rightarrow> (nat \<times> nat) list" where
  "shape ar = map (\<lambda>c. (length (cdata c), length (cptrs c))) (cells ar)"

section \<open>Concrete streams\<close>

text \<open>
  Three streams for evaluating the transport: one with all three optional interfaces
  whose \<open>CloseWrite\<close>, \<open>CloseRead\<close> and \<open>Close\<close> all fail, one with all three that
  never fails, and
  a plain \<open>io.ReadWriteCloser\<close> with none of them (an \<open>io.Pipe\<close> pair, say).
\<close>

definition failing_rwc :: rwc where
  "failing_rwc =
     \<lparr> implSetWriteDeadline = True, implCloseRead = True, implCloseWrite = True,
       respond = (\<lambda>h c. case c of CloseWrite \<Rightarrow> Some ''write half-close failed''
                               | CloseRead \<Rightarrow> Some ''read half-close failed''
                               | Close \<Rightarrow> Some ''close failed''
                               | _ \<Rightarrow> None),
       calls = [], incoming = [] \<rparr>"

definition quiet_rwc :: rwc where
  "quiet_rwc =
     \<lparr> implSetWriteDeadline = True, implCloseRead = True, implCloseWrite = True,
       respond = (\<lambda>h c. None), calls = [], incoming = [] \<rparr>"

definition plain_rwc :: rwc where
  "plain_rwc =
     \<lparr> implSetWriteDeadline = False, implCloseRead = False, implCloseWrite = False,
       respond = (\<lambda>h c. None), calls = [], incoming = [] \<rparr>"

section \<open>Reading and writing the buffer\<close>

lemma length_le_bytes [simp]: "length (le_bytes n v) = n"
  by (induction n arbitrary: v) simp_all

lemma le_value_le_bytes: "le_value (le_bytes n v) = v mod 256 ^ n"
proof (induction n arbitrary: v)
  case 0
  show ?case by simp
next
  case (Suc n)
  have "unat (of_nat (v mod 256) :: byte) = v mod 256"
    by (simp add: unat_of_nat)
  then show ?case
    using Suc [of "v div 256"] by (simp add: mod_mult2_eq)
qed

lemma le_value_zeros [simp]: "le_value (replicate n 0) = 0"
  by (induction n) simp_all

lemma length_patch: "off + length bs \<le> length d \<Longrightarrow> length (patch d off bs) = length d"
  by (simp add: patch_def)

lemma nth_patch:
  assumes "off + length bs \<le> length d" "i < length d"
  shows "patch d off bs ! i = (if off \<le> i \<and> i < off + length bs then bs ! (i - off) else d ! i)"
proof -
  have l: "length (take off d) = off" using assms by simp
  show ?thesis
  proof (cases "i < off")
    case True
    then show ?thesis using assms by (simp add: patch_def nth_append l)
  next
    case False
    note nlt = this
    show ?thesis
    proof (cases "i < off + length bs")
      case True
      with nlt have "i - off < length bs" by arith
      with True nlt show ?thesis using assms by (simp add: patch_def nth_append min_absorb2)
    next
      case False
      with nlt have ge: "length bs \<le> i - off" "off + length bs + (i - off - length bs) = i"
        by arith+
      from nlt assms(1) have "patch d off bs ! i = (bs @ drop (off + length bs) d) ! (i - off)"
        by (simp add: patch_def nth_append min_absorb2)
      also from ge(1) have "\<dots> = drop (off + length bs) d ! (i - off - length bs)"
        by (simp add: nth_append)
      also from assms(1) ge(2) have "\<dots> = d ! i"
        by simp
      finally show ?thesis using False by simp
    qed
  qed
qed

lemma take_drop_patch:
  assumes "off + length bs \<le> length d" "off' + n' \<le> off \<or> off + length bs \<le> off'"
  shows "take n' (drop off' (patch d off bs)) = take n' (drop off' d)"
proof (rule nth_equalityI)
  show "length (take n' (drop off' (patch d off bs))) = length (take n' (drop off' d))"
    using assms(1) by (simp add: length_patch)
next
  fix i assume "i < length (take n' (drop off' (patch d off bs)))"
  then have i: "i < n'" "off' + i < length d" using assms(1) by (auto simp: length_patch)
  then have "patch d off bs ! (off' + i) = d ! (off' + i)"
    using assms by (auto simp: nth_patch)
  with i assms(1) show "take n' (drop off' (patch d off bs)) ! i = take n' (drop off' d) ! i"
    by (simp add: length_patch)
qed

lemma take_drop_patch_same:
  assumes "off + length bs \<le> length d"
  shows "take (length bs) (drop off (patch d off bs)) = bs"
  using assms by (simp add: patch_def)

text \<open>What a successful data write is, and what it leaves alone.\<close>

lemma set_data_Some:
  "set_data s off n v ar = Some ar' \<longleftrightarrow>
     (\<exists>a. s = StructAt a \<and> a < length (cells ar) \<and> off + n \<le> length (cdata (cells ar ! a)) \<and>
          ar' = ar\<lparr>cells := (cells ar)[a := (cells ar ! a)\<lparr>cdata :=
                         patch (cdata (cells ar ! a)) off (le_bytes n v)\<rparr>],
                    writes := writes ar @ [WData a off n]\<rparr>)"
  by (cases s) (auto simp: set_data_def cell_of_def)

lemma get_data_set_data_same:
  assumes "set_data s off n v ar = Some ar'"
  shows "get_data ar' s off n = v mod 256 ^ n"
proof -
  from assms obtain a where a: "s = StructAt a" "a < length (cells ar)"
    "off + n \<le> length (cdata (cells ar ! a))"
    "cells ar' = (cells ar)[a := (cells ar ! a)\<lparr>cdata :=
                         patch (cdata (cells ar ! a)) off (le_bytes n v)\<rparr>]"
    by (auto simp: set_data_Some)
  have "take n (drop off (patch (cdata (cells ar ! a)) off (le_bytes n v))) = le_bytes n v"
    using take_drop_patch_same [of off "le_bytes n v" "cdata (cells ar ! a)"] a(3) by simp
  with a show ?thesis
    by (simp add: get_data_def cell_of_def le_value_le_bytes length_patch)
qed

lemma get_data_set_data_disjoint:
  assumes "set_data s off n v ar = Some ar'" "off' + n' \<le> off \<or> off + n \<le> off'"
  shows "get_data ar' s off' n' = get_data ar s off' n'"
proof -
  from assms obtain a where a: "s = StructAt a" "a < length (cells ar)"
    "off + n \<le> length (cdata (cells ar ! a))"
    "cells ar' = (cells ar)[a := (cells ar ! a)\<lparr>cdata :=
                         patch (cdata (cells ar ! a)) off (le_bytes n v)\<rparr>]"
    by (auto simp: set_data_Some)
  have "take n' (drop off' (patch (cdata (cells ar ! a)) off (le_bytes n v))) =
        take n' (drop off' (cdata (cells ar ! a)))"
    using take_drop_patch [of off "le_bytes n v" "cdata (cells ar ! a)" off' n'] a(3) assms(2)
    by simp
  with a show ?thesis
    by (simp add: get_data_def cell_of_def length_patch)
qed

lemma get_data_set_data_other:
  assumes "set_data s off n v ar = Some ar'" "s' \<noteq> s"
  shows "get_data ar' s' off' n' = get_data ar s' off' n'"
  using assms by (cases s') (auto simp: set_data_Some get_data_def cell_of_def)

lemma cptrs_set_data:
  assumes "set_data s off n v ar = Some ar'"
  shows "length (cells ar') = length (cells ar)" "cptrs (cells ar' ! b) = cptrs (cells ar ! b)"
proof -
  from assms obtain a where a: "a < length (cells ar)"
    "cells ar' = (cells ar)[a := (cells ar ! a)\<lparr>cdata :=
                         patch (cdata (cells ar ! a)) off (le_bytes n v)\<rparr>]"
    by (auto simp: set_data_Some)
  show "length (cells ar') = length (cells ar)" using a by simp
  show "cptrs (cells ar' ! b) = cptrs (cells ar ! b)"
    using a by (cases "b = a") simp_all
qed

lemma Struct_Ptr_set_data:
  assumes "set_data s off n v ar = Some ar'"
  shows "Struct_Ptr ar' s' i = Struct_Ptr ar s' i"
  by (cases s') (simp_all add: Struct_Ptr_def cell_of_def cptrs_set_data [OF assms])

lemma set_data_succeeds:
  assumes "cell_of ar s = Some (a, c)" "off + n \<le> length (cdata c)"
  shows "\<exists>ar'. set_data s off n v ar = Some ar'"
  using assms by (simp add: set_data_def)

lemma cell_of_set_data:
  assumes "set_data s off n v ar = Some ar'" "cell_of ar s' = Some (b, c)"
  shows "\<exists>c'. cell_of ar' s' = Some (b, c') \<and> length (cdata c') = length (cdata c) \<and> cptrs c' = cptrs c"
proof -
  from assms(1) obtain a where a: "s = StructAt a" "a < length (cells ar)"
    "off + n \<le> length (cdata (cells ar ! a))"
    "cells ar' = (cells ar)[a := (cells ar ! a)\<lparr>cdata :=
                         patch (cdata (cells ar ! a)) off (le_bytes n v)\<rparr>]"
    by (auto simp: set_data_Some)
  from assms(2) have b: "s' = StructAt b" "b < length (cells ar)" "c = cells ar ! b"
    by (cases s'; simp add: cell_of_def split: if_splits)+
  show ?thesis
    using a b by (cases "b = a") (simp_all add: cell_of_def length_patch)
qed

text \<open>What a successful pointer write is, and what it leaves alone.\<close>

lemma Struct_SetPtr_Some:
  "Struct_SetPtr s i p ar = Some (e, ar') \<longleftrightarrow>
     (\<exists>a. s = StructAt a \<and> a < length (cells ar) \<and> i < length (cptrs (cells ar ! a)) \<and>
          e = None \<and>
          ar' = ar\<lparr>cells := (cells ar)[a := (cells ar ! a)\<lparr>cptrs :=
                         (cptrs (cells ar ! a))[i := Good p]\<rparr>],
                    writes := writes ar @ [WPtr a i]\<rparr>)"
  by (cases s) (auto simp: Struct_SetPtr_def cell_of_def)

lemma Struct_Ptr_SetPtr_same:
  assumes "Struct_SetPtr s i p ar = Some (e, ar')"
  shows "Struct_Ptr ar' s i = (p, None)"
  using assms by (auto simp: Struct_SetPtr_Some Struct_Ptr_def cell_of_def read_slot_def)

lemma Struct_Ptr_SetPtr_other:
  assumes "Struct_SetPtr s i p ar = Some (e, ar')" "s' \<noteq> s \<or> i' \<noteq> i"
  shows "Struct_Ptr ar' s' i' = Struct_Ptr ar s' i'"
proof -
  from assms(1) obtain a where a: "s = StructAt a" "a < length (cells ar)"
    "cells ar' = (cells ar)[a := (cells ar ! a)\<lparr>cptrs := (cptrs (cells ar ! a))[i := Good p]\<rparr>]"
    by (auto simp: Struct_SetPtr_Some)
  show ?thesis
  proof (cases s')
    case ZeroStruct
    then show ?thesis by (simp add: Struct_Ptr_def cell_of_def)
  next
    case (StructAt b)
    with a assms(2) show ?thesis
      by (cases "b = a") (simp_all add: Struct_Ptr_def cell_of_def)
  qed
qed

lemma get_data_SetPtr:
  assumes "Struct_SetPtr s i p ar = Some (e, ar')"
  shows "get_data ar' s' off n = get_data ar s' off n"
proof -
  from assms(1) obtain a where a: "s = StructAt a" "a < length (cells ar)"
    "cells ar' = (cells ar)[a := (cells ar ! a)\<lparr>cptrs := (cptrs (cells ar ! a))[i := Good p]\<rparr>]"
    by (auto simp: Struct_SetPtr_Some)
  show ?thesis
  proof (cases s')
    case ZeroStruct
    then show ?thesis by (simp add: get_data_def cell_of_def)
  next
    case (StructAt b)
    with a show ?thesis
      by (cases "b = a") (simp_all add: get_data_def cell_of_def)
  qed
qed

lemma cell_of_SetPtr:
  assumes "Struct_SetPtr s i p ar = Some (e, ar')" "cell_of ar s' = Some (b, c)"
  shows "\<exists>c'. cell_of ar' s' = Some (b, c') \<and> cdata c' = cdata c \<and> length (cptrs c') = length (cptrs c)"
proof -
  from assms(1) obtain a where a: "s = StructAt a" "a < length (cells ar)"
    "cells ar' = (cells ar)[a := (cells ar ! a)\<lparr>cptrs := (cptrs (cells ar ! a))[i := Good p]\<rparr>]"
    by (auto simp: Struct_SetPtr_Some)
  from assms(2) have b: "s' = StructAt b" "b < length (cells ar)" "c = cells ar ! b"
    by (cases s'; simp add: cell_of_def split: if_splits)+
  show ?thesis
    using a b by (cases "b = a") (simp_all add: cell_of_def)
qed

text \<open>Allocation: what it returns, and that every read stays as it was.\<close>

lemma capnp_NewStruct_ok:
  "capnp_NewStruct sz ar = ((st, None), ar') \<longleftrightarrow>
     (words_of sz \<le> room ar \<and> st = StructAt (length (cells ar)) \<and>
      ar' = ar\<lparr>cells := cells ar @ [zero_cell sz], room := room ar - words_of sz\<rparr>)"
  by (auto simp: capnp_NewStruct_def)

lemma capnp_NewCompositeList_ok:
  "capnp_NewCompositeList sz n ar = ((l, None), ar') \<longleftrightarrow>
     (0 \<le> n \<and> 1 + nat n * words_of sz \<le> room ar \<and> l = ListAt (length (cells ar)) (nat n) \<and>
      ar' = ar\<lparr>cells := cells ar @ replicate (nat n) (zero_cell sz),
               room := room ar - (1 + nat n * words_of sz)\<rparr>)"
  by (auto simp: capnp_NewCompositeList_def)

lemma get_data_grow:
  assumes "cells ar' = cells ar @ replicate k (zero_cell sz)"
  shows "get_data ar' s off n = get_data ar s off n"
proof (cases s)
  case ZeroStruct
  then show ?thesis by (simp add: get_data_def cell_of_def)
next
  case (StructAt b)
  show ?thesis
  proof (cases "b < length (cells ar)")
    case True
    with StructAt assms show ?thesis by (simp add: get_data_def cell_of_def nth_append)
  next
    case False
    have z: "take n (drop off (replicate m (0::byte))) = replicate (min n (m - off)) 0" for m
      by simp
    from False StructAt assms show ?thesis
      by (simp add: get_data_def cell_of_def nth_append zero_cell_def z)
  qed
qed

lemma Struct_Ptr_grow:
  assumes "cells ar' = cells ar @ replicate k (zero_cell sz)"
  shows "Struct_Ptr ar' s i = Struct_Ptr ar s i"
proof (cases s)
  case ZeroStruct
  then show ?thesis by (simp add: Struct_Ptr_def cell_of_def)
next
  case (StructAt b)
  show ?thesis
  proof (cases "b < length (cells ar)")
    case True
    with StructAt assms show ?thesis by (simp add: Struct_Ptr_def cell_of_def nth_append)
  next
    case False
    with StructAt assms show ?thesis
      by (simp add: Struct_Ptr_def cell_of_def nth_append zero_cell_def read_slot_def)
  qed
qed

text \<open>A bit reads as it was last written, and a new struct has none set.\<close>

lemma Struct_SetBit_Some:
  "Struct_SetBit s n v ar = Some ar' \<longleftrightarrow>
     (\<exists>a. s = StructAt a \<and> a < length (cells ar) \<and> n div 8 < length (cdata (cells ar ! a)) \<and>
          ar' = ar\<lparr>cells := (cells ar)[a := (cells ar ! a)\<lparr>cdata :=
                         (cdata (cells ar ! a))[n div 8 :=
                            (if v then set_bit (n mod 8) (cdata (cells ar ! a) ! (n div 8))
                             else unset_bit (n mod 8) (cdata (cells ar ! a) ! (n div 8)))]\<rparr>],
                    writes := writes ar @ [WBit a n]\<rparr>)"
  by (cases s) (auto simp: Struct_SetBit_def cell_of_def)

lemma Struct_Bit_SetBit_same:
  assumes "Struct_SetBit s n v ar = Some ar'"
  shows "Struct_Bit ar' s n = v"
proof -
  have "n mod 8 < 8" by simp
  then have p: "possible_bit TYPE(byte) (n mod 8)" by (simp add: possible_bit_def)
  from assms p show ?thesis
    by (cases v)
       (auto simp: Struct_SetBit_Some Struct_Bit_def cell_of_def bit_set_bit_iff bit_unset_bit_iff)
qed

lemma Struct_Bit_new:
  assumes "capnp_NewStruct sz ar = ((st, None), ar')"
  shows "\<not> Struct_Bit ar' st n"
  using assms by (auto simp: capnp_NewStruct_ok Struct_Bit_def cell_of_def zero_cell_def)

lemma Struct_SetBit_new:
  assumes "capnp_NewStruct sz ar = ((st, None), ar')" "n div 8 < 8 * ((DataSize sz + 7) div 8)"
  shows "\<exists>ar''. Struct_SetBit st n v ar' = Some ar''"
  using assms by (auto simp: capnp_NewStruct_ok Struct_SetBit_def cell_of_def zero_cell_def)

text \<open>The definitions of the buffer, for evaluating it on concrete arenas.\<close>

lemmas buffer_defs =
  capnp_NewStruct_def capnp_NewRootStruct_def capnp_NewCompositeList_def words_of_def
  zero_cell_def new_arena_def cell_of_def set_data_def get_data_def patch_def
  Struct_SetBit_def Struct_Bit_def Struct_SetPtr_def Struct_Ptr_def read_slot_def
  Struct_ToPtr_def List_ToPtr_def Ptr_Struct_def Ptr_List_def Ptr_IsValid_def
  Struct_Uint16_def Struct_Uint32_def Struct_Uint64_def
  Struct_SetUint16_def Struct_SetUint32_def Struct_SetUint64_def
  List_Len_def List_Struct_def Message_RootPtr_def

lemma u16_of_le: "(of_nat (unat (v::u16) mod 256 ^ 2) :: u16) = v"
proof -
  have "unat v < 2 ^ 16" using unsigned_less [of v, where ?'a = nat] by simp
  then have "unat v mod 256 ^ 2 = unat v" by simp
  then show ?thesis by simp
qed

text \<open>\<open>SetGetPointerField\<close>: needs four bytes of data, sets tag and index, leaves the rest.\<close>

lemma SetGetPointerField_succeeds:
  assumes "cell_of ar s = Some (a, c)" "4 \<le> length (cdata c)"
  shows "\<exists>ar'. PromisedAnswer_Op_SetGetPointerField s v ar = Some ar'"
proof -
  from assms obtain ar1 where 1: "set_data s 0 2 (unat (1::u16)) ar = Some ar1"
    using set_data_succeeds [of ar s a c 0 2] by auto
  from cell_of_set_data [OF 1 assms(1)] assms(2) obtain c' where
    "cell_of ar1 s = Some (a, c')" "4 \<le> length (cdata c')" by auto
  then obtain ar' where "set_data s 2 2 (unat v) ar1 = Some ar'"
    using set_data_succeeds [of ar1 s a c' 2 2] by auto
  with 1 show ?thesis
    by (simp add: PromisedAnswer_Op_SetGetPointerField_def Struct_SetUint16_def)
qed

lemma SetGetPointerField_reads:
  assumes "PromisedAnswer_Op_SetGetPointerField s v ar = Some ar'"
  shows "PromisedAnswer_Op_Which ar' s = PromisedAnswer_Op_Which_getPointerField"
    and "PromisedAnswer_Op_GetPointerField ar' s = v"
    and "s' \<noteq> s \<Longrightarrow> get_data ar' s' off n = get_data ar s' off n"
    and "Struct_Ptr ar' s' i = Struct_Ptr ar s' i"
    and "cell_of ar s' = Some (b, c) \<Longrightarrow>
           \<exists>c'. cell_of ar' s' = Some (b, c') \<and> length (cdata c') = length (cdata c)"
proof -
  from assms obtain ar1 where
    1: "set_data s 0 2 (unat (1::u16)) ar = Some ar1" and
    2: "set_data s 2 2 (unat v) ar1 = Some ar'"
    by (auto simp: PromisedAnswer_Op_SetGetPointerField_def Struct_SetUint16_def
             split: option.splits)
  have "get_data ar' s 0 2 = get_data ar1 s 0 2"
    using get_data_set_data_disjoint [OF 2, of 0 2] by simp
  also have "\<dots> = unat (1::u16) mod 256 ^ 2"
    by (rule get_data_set_data_same [OF 1])
  finally show "PromisedAnswer_Op_Which ar' s = PromisedAnswer_Op_Which_getPointerField"
    by (simp add: PromisedAnswer_Op_Which_def Struct_Uint16_def
                  PromisedAnswer_Op_Which_getPointerField_def)
  show "PromisedAnswer_Op_GetPointerField ar' s = v"
    using get_data_set_data_same [OF 2] u16_of_le [of v]
    by (simp add: PromisedAnswer_Op_GetPointerField_def Struct_Uint16_def)
  show "s' \<noteq> s \<Longrightarrow> get_data ar' s' off n = get_data ar s' off n"
    using get_data_set_data_other [OF 1] get_data_set_data_other [OF 2] by simp
  show "Struct_Ptr ar' s' i = Struct_Ptr ar s' i"
    using Struct_Ptr_set_data [OF 1] Struct_Ptr_set_data [OF 2] by simp
  show "cell_of ar s' = Some (b, c) \<Longrightarrow>
           \<exists>c'. cell_of ar' s' = Some (b, c') \<and> length (cdata c') = length (cdata c)"
  proof -
    assume "cell_of ar s' = Some (b, c)"
    from cell_of_set_data [OF 1 this] obtain c1 where
      c1: "cell_of ar1 s' = Some (b, c1)" "length (cdata c1) = length (cdata c)" by auto
    from cell_of_set_data [OF 2 c1(1)] c1(2) show ?thesis by auto
  qed
qed

text \<open>\<open>NewTransform\<close>: where the list lands and what the struct then points to.\<close>

lemma NewTransform_ok:
  assumes "ok_new (PromisedAnswer_NewTransform pa n ar) = Some (l, ar1)"
  shows "0 \<le> n" and "l = ListAt (length (cells ar)) (nat n)"
    and "Struct_Ptr ar1 pa 0 = (ListPtr (length (cells ar)) (nat n), None)"
    and "\<exists>a. pa = StructAt a \<and> a < length (cells ar)"
    and "i < nat n \<Longrightarrow>
           cell_of ar1 (StructAt (length (cells ar) + i)) =
             Some (length (cells ar) + i, zero_cell \<lparr>DataSize = 8, PointerCount = 0\<rparr>)"
proof -
  let ?sz = "\<lparr>DataSize = 8, PointerCount = 0\<rparr>"
  from assms obtain ar0 e where
    nl: "capnp_NewCompositeList ?sz n ar = ((l, None), ar0)" and
    sp: "Struct_SetPtr pa 0 (List_ToPtr l) ar0 = Some (e, ar1)"
    by (auto simp: ok_new_def ok_def PromisedAnswer_NewTransform_def NewPromisedAnswer_Op_List_def
             split: option.splits prod.splits)
  from nl have l: "0 \<le> n" "l = ListAt (length (cells ar)) (nat n)"
    and ar0: "cells ar0 = cells ar @ replicate (nat n) (zero_cell ?sz)"
    by (auto simp: capnp_NewCompositeList_ok)
  show "0 \<le> n" "l = ListAt (length (cells ar)) (nat n)" by fact+
  show "Struct_Ptr ar1 pa 0 = (ListPtr (length (cells ar)) (nat n), None)"
    using Struct_Ptr_SetPtr_same [OF sp] l by (simp add: List_ToPtr_def)
  from sp obtain a where a: "pa = StructAt a" "a < length (cells ar0)"
    "0 < length (cptrs (cells ar0 ! a))"
    "cells ar1 = (cells ar0)[a := (cells ar0 ! a)\<lparr>cptrs := (cptrs (cells ar0 ! a))[0 := Good (List_ToPtr l)]\<rparr>]"
    by (auto simp: Struct_SetPtr_Some)
  have lt: "a < length (cells ar)"
  proof (rule ccontr)
    assume "\<not> a < length (cells ar)"
    with a(2) ar0 have "cells ar0 ! a = zero_cell ?sz"
      by (simp add: nth_append)
    with a(3) show False by (simp add: zero_cell_def)
  qed
  with a(1) show "\<exists>a. pa = StructAt a \<and> a < length (cells ar)" by blast
  show "i < nat n \<Longrightarrow>
           cell_of ar1 (StructAt (length (cells ar) + i)) =
             Some (length (cells ar) + i, zero_cell ?sz)"
    using a(4) ar0 lt by (simp add: cell_of_def nth_append)
qed


text \<open>Layout, root and write history under each primitive.\<close>

lemma length_shape [simp]: "length (shape ar) = length (cells ar)"
  by (simp add: shape_def)

lemma cell_of_shape:
  "cell_of ar (StructAt a) = Some (b, c) \<Longrightarrow>
     b = a \<and> a < length (shape ar) \<and> shape ar ! a = (length (cdata c), length (cptrs c))"
  by (auto simp: cell_of_def shape_def split: if_splits)

lemma set_data_frame:
  assumes "set_data (StructAt a) off n v ar = Some ar'"
  shows "shape ar' = shape ar" "root ar' = root ar" "room ar' = room ar"
    "writes ar' = writes ar @ [WData a off n]"
proof -
  from assms have a: "a < length (cells ar)" "off + n \<le> length (cdata (cells ar ! a))"
    "ar' = ar\<lparr>cells := (cells ar)[a := (cells ar ! a)\<lparr>cdata :=
                         patch (cdata (cells ar ! a)) off (le_bytes n v)\<rparr>],
                    writes := writes ar @ [WData a off n]\<rparr>"
    by (auto simp: set_data_Some)
  show "shape ar' = shape ar"
    using a by (simp add: shape_def map_update length_patch list_update_same_conv)
  show "root ar' = root ar" "room ar' = room ar" "writes ar' = writes ar @ [WData a off n]"
    using a(3) by simp_all
qed

lemma set_data_iff_shape:
  "(\<exists>ar'. set_data (StructAt a) off n v ar = Some ar') \<longleftrightarrow>
     a < length (shape ar) \<and> off + n \<le> fst (shape ar ! a)"
  by (auto simp: set_data_Some shape_def)

lemma SetPtr_frame:
  assumes "Struct_SetPtr (StructAt a) i p ar = Some (e, ar')"
  shows "shape ar' = shape ar" "root ar' = root ar" "room ar' = room ar"
    "writes ar' = writes ar @ [WPtr a i]" "e = None"
proof -
  from assms have a: "a < length (cells ar)" "i < length (cptrs (cells ar ! a))" "e = None"
    "ar' = ar\<lparr>cells := (cells ar)[a := (cells ar ! a)\<lparr>cptrs :=
                         (cptrs (cells ar ! a))[i := Good p]\<rparr>],
                    writes := writes ar @ [WPtr a i]\<rparr>"
    by (auto simp: Struct_SetPtr_Some)
  show "shape ar' = shape ar"
    using a by (simp add: shape_def map_update list_update_same_conv)
  show "root ar' = root ar" "room ar' = room ar" "writes ar' = writes ar @ [WPtr a i]" "e = None"
    using a(3,4) by simp_all
qed

lemma SetPtr_iff_shape:
  "(\<exists>ar'. Struct_SetPtr (StructAt a) i p ar = Some (None, ar')) \<longleftrightarrow>
     a < length (shape ar) \<and> i < snd (shape ar ! a)"
  by (auto simp: Struct_SetPtr_Some shape_def)

lemma NewStruct_frame:
  assumes "capnp_NewStruct sz ar = ((st, None), ar')"
  shows "st = StructAt (length (cells ar))"
    "shape ar' = shape ar @ [(8 * ((DataSize sz + 7) div 8), PointerCount sz)]"
    "root ar' = root ar" "room ar' = room ar - words_of sz" "writes ar' = writes ar"
    "cells ar' = cells ar @ replicate 1 (zero_cell sz)"
  using assms by (auto simp: capnp_NewStruct_ok shape_def zero_cell_def)

lemma NewStruct_iff_room:
  "(\<exists>st ar'. capnp_NewStruct sz ar = ((st, None), ar')) \<longleftrightarrow> words_of sz \<le> room ar"
  by (auto simp: capnp_NewStruct_ok)

text \<open>The steps of scenario 1, as writes on the buffer.\<close>

lemma Message_SetCall_Some:
  "Message_SetCall s v ar = Some (e, ar') \<longleftrightarrow>
     (\<exists>ar1. set_data s 0 2 2 ar = Some ar1 \<and>
            Struct_SetPtr s 0 (Struct_ToPtr v) ar1 = Some (e, ar'))"
  by (auto simp: Message_SetCall_def Struct_SetUint16_def split: option.splits)

lemma Call_NewTarget_ok:
  "ok_new (Call_NewTarget s ar) = Some (tgt, ar') \<longleftrightarrow>
     (\<exists>ar1. capnp_NewStruct \<lparr>DataSize = 8, PointerCount = 1\<rparr> ar = ((tgt, None), ar1) \<and>
            Struct_SetPtr s 0 (Struct_ToPtr tgt) ar1 = Some (None, ar'))"
  by (auto simp: Call_NewTarget_def NewMessageTarget_def ok_new_def ok_def
           split: option.splits prod.splits)

lemma MessageTarget_SetImportedCap_Some:
  "MessageTarget_SetImportedCap s v ar = Some ar' \<longleftrightarrow>
     (\<exists>ar1. set_data s 4 2 0 ar = Some ar1 \<and> set_data s 0 4 (unat v) ar1 = Some ar')"
  by (auto simp: MessageTarget_SetImportedCap_def Struct_SetUint16_def Struct_SetUint32_def
           split: option.splits)

lemma call_scenario_Some:
  "call_scenario rmsg ar = Some ar' \<longleftrightarrow>
     (\<exists>call ar1 ar1a ar2 ar3 ar4 ar5 tgt ar5a ar6 ar6a.
        capnp_NewStruct \<lparr>DataSize = 24, PointerCount = 3\<rparr> ar = ((call, None), ar1) \<and>
        set_data rmsg 0 2 2 ar1 = Some ar1a \<and>
        Struct_SetPtr rmsg 0 (Struct_ToPtr call) ar1a = Some (None, ar2) \<and>
        set_data call 0 4 7 ar2 = Some ar3 \<and>
        set_data call 8 8 1 ar3 = Some ar4 \<and>
        set_data call 4 2 2 ar4 = Some ar5 \<and>
        capnp_NewStruct \<lparr>DataSize = 8, PointerCount = 1\<rparr> ar5 = ((tgt, None), ar5a) \<and>
        Struct_SetPtr call 0 (Struct_ToPtr tgt) ar5a = Some (None, ar6) \<and>
        set_data tgt 4 2 0 ar6 = Some ar6a \<and>
        set_data tgt 0 4 3 ar6a = Some ar')"
proof -
  have ok_NewCall: "ok (NewCall ar) = Some (call, ar1) \<longleftrightarrow>
      capnp_NewStruct \<lparr>DataSize = 24, PointerCount = 3\<rparr> ar = ((call, None), ar1)" for call ar1
    by (auto simp: ok_def NewCall_def split: prod.splits option.splits)
  have ok_SetCall: "ok_set (Message_SetCall rmsg call ar1) = Some ar2 \<longleftrightarrow>
      Message_SetCall rmsg call ar1 = Some (None, ar2)" for call ar1 ar2
    by (auto simp: ok_set_def split: option.splits prod.splits)
  have u: "unat (7::u32) = 7" "unat (2::u16) = 2" "unat (1::u64) = 1" "unat (3::u32) = 3"
    by simp_all
  show ?thesis
    unfolding call_scenario_def bind_eq_Some_conv split_paired_Ex prod.case
      ok_NewCall ok_SetCall Message_SetCall_Some Call_NewTarget_ok
      MessageTarget_SetImportedCap_Some Call_SetQuestionId_def Call_SetInterfaceId_def
      Call_SetMethodId_def Struct_SetUint16_def Struct_SetUint32_def Struct_SetUint64_def u
    by blast
qed


lemma call_scenario_reads:
  assumes sc: "call_scenario rmsg ar = Some ar'" and valid: "cell_of ar rmsg = Some (a, c)"
  shows "Message_Which ar' rmsg = Message_Which_call"
    and "Message_Call ar' rmsg = (StructAt (length (cells ar)), None)"
    and "Call_QuestionId ar' (StructAt (length (cells ar))) = 7"
    and "Call_InterfaceId ar' (StructAt (length (cells ar))) = 1"
    and "Call_MethodId ar' (StructAt (length (cells ar))) = 2"
    and "Call_Target ar' (StructAt (length (cells ar))) = (StructAt (length (cells ar) + 1), None)"
    and "MessageTarget_Which ar' (StructAt (length (cells ar) + 1)) = 0"
    and "MessageTarget_ImportedCap ar' (StructAt (length (cells ar) + 1)) = 3"
    and "root ar' = root ar"
    and "writes ar' = writes ar @
           [WData a 0 2, WPtr a 0,
            WData (length (cells ar)) 0 4, WData (length (cells ar)) 8 8,
            WData (length (cells ar)) 4 2, WPtr (length (cells ar)) 0,
            WData (length (cells ar) + 1) 4 2, WData (length (cells ar) + 1) 0 4]"
proof -
  let ?L = "length (cells ar)"
  from sc obtain call ar1 ar1a ar2 ar3 ar4 ar5 tgt ar5a ar6 ar6a where
    n1: "capnp_NewStruct \<lparr>DataSize = 24, PointerCount = 3\<rparr> ar = ((call, None), ar1)" and
    d1: "set_data rmsg 0 2 2 ar1 = Some ar1a" and
    p2: "Struct_SetPtr rmsg 0 (Struct_ToPtr call) ar1a = Some (None, ar2)" and
    d3: "set_data call 0 4 7 ar2 = Some ar3" and
    d4: "set_data call 8 8 1 ar3 = Some ar4" and
    d5: "set_data call 4 2 2 ar4 = Some ar5" and
    n5: "capnp_NewStruct \<lparr>DataSize = 8, PointerCount = 1\<rparr> ar5 = ((tgt, None), ar5a)" and
    p6: "Struct_SetPtr call 0 (Struct_ToPtr tgt) ar5a = Some (None, ar6)" and
    d6: "set_data tgt 4 2 0 ar6 = Some ar6a" and
    d7: "set_data tgt 0 4 3 ar6a = Some ar'"
    unfolding call_scenario_Some by blast
  from valid have r: "rmsg = StructAt a" "a < ?L"
    by (cases rmsg; simp add: cell_of_def split: if_splits)+
  have call: "call = StructAt ?L" by (rule NewStruct_frame(1) [OF n1])
  note n1' = n1 [unfolded call] and d1' = d1 [unfolded r(1)] and p2' = p2 [unfolded r(1) call]
    and d3' = d3 [unfolded call] and d4' = d4 [unfolded call] and d5' = d5 [unfolded call]
  have "shape ar5 = shape ar @ [(24, 3)]"
    using NewStruct_frame(2) [OF n1'] set_data_frame(1) [OF d1'] SetPtr_frame(1) [OF p2']
      set_data_frame(1) [OF d3'] set_data_frame(1) [OF d4'] set_data_frame(1) [OF d5']
    by simp
  then have "length (shape ar5) = ?L + 1" by simp
  then have len5: "length (cells ar5) = ?L + 1" by simp
  have tgt: "tgt = StructAt (?L + 1)"
    using NewStruct_frame(1) [OF n5] len5 by simp
  note n5' = n5 [unfolded tgt] and p6' = p6 [unfolded call tgt]
    and d6' = d6 [unfolded tgt] and d7' = d7 [unfolded tgt]
  have ne: "StructAt a \<noteq> StructAt ?L" "StructAt a \<noteq> StructAt (?L + 1)"
    "StructAt ?L \<noteq> StructAt (?L + 1)"
    using r(2) by simp_all

  txt \<open>The root struct: its discriminant and its pointer.\<close>
  have "get_data ar' (StructAt a) 0 2 = get_data ar1a (StructAt a) 0 2"
    using get_data_set_data_other [OF d7' ne(2)] get_data_set_data_other [OF d6' ne(2)]
      get_data_SetPtr [OF p6'] get_data_grow [OF NewStruct_frame(6) [OF n5']]
      get_data_set_data_other [OF d5' ne(1)] get_data_set_data_other [OF d4' ne(1)]
      get_data_set_data_other [OF d3' ne(1)] get_data_SetPtr [OF p2']
    by simp
  also have "\<dots> = 2" using get_data_set_data_same [OF d1'] by simp
  finally show "Message_Which ar' rmsg = Message_Which_call"
    by (simp add: r(1) Message_Which_def Struct_Uint16_def Message_Which_call_def)
  have "Struct_Ptr ar' (StructAt a) 0 = Struct_Ptr ar2 (StructAt a) 0"
    using Struct_Ptr_set_data [OF d7'] Struct_Ptr_set_data [OF d6']
      Struct_Ptr_SetPtr_other [OF p6', of "StructAt a" 0] ne(1)
      Struct_Ptr_grow [OF NewStruct_frame(6) [OF n5']]
      Struct_Ptr_set_data [OF d5'] Struct_Ptr_set_data [OF d4'] Struct_Ptr_set_data [OF d3']
    by simp
  also have "\<dots> = (StructPtr ?L, None)"
    using Struct_Ptr_SetPtr_same [OF p2'] by (simp add: Struct_ToPtr_def)
  finally show "Message_Call ar' rmsg = (StructAt ?L, None)"
    by (simp add: r(1) Message_Call_def Ptr_Struct_def)

  txt \<open>The call: what later writes leave of each field.\<close>
  have later: "get_data ar' (StructAt ?L) off n = get_data ar5 (StructAt ?L) off n" for off n
    using get_data_set_data_other [OF d7' ne(3)] get_data_set_data_other [OF d6' ne(3)]
      get_data_SetPtr [OF p6'] get_data_grow [OF NewStruct_frame(6) [OF n5']]
    by simp
  have "get_data ar5 (StructAt ?L) 0 4 = get_data ar3 (StructAt ?L) 0 4"
    using get_data_set_data_disjoint [OF d5', of 0 4] get_data_set_data_disjoint [OF d4', of 0 4]
    by simp
  also have "\<dots> = 7" using get_data_set_data_same [OF d3'] by simp
  finally show "Call_QuestionId ar' (StructAt ?L) = 7"
    by (simp add: Call_QuestionId_def Struct_Uint32_def later)
  have "get_data ar5 (StructAt ?L) 8 8 = get_data ar4 (StructAt ?L) 8 8"
    using get_data_set_data_disjoint [OF d5', of 8 8] by simp
  also have "\<dots> = 1" using get_data_set_data_same [OF d4'] by simp
  finally show "Call_InterfaceId ar' (StructAt ?L) = 1"
    by (simp add: Call_InterfaceId_def Struct_Uint64_def later)
  have "get_data ar5 (StructAt ?L) 4 2 = 2"
    using get_data_set_data_same [OF d5'] by simp
  then show "Call_MethodId ar' (StructAt ?L) = 2"
    by (simp add: Call_MethodId_def Struct_Uint16_def later)
  have "Struct_Ptr ar' (StructAt ?L) 0 = Struct_Ptr ar6 (StructAt ?L) 0"
    using Struct_Ptr_set_data [OF d7'] Struct_Ptr_set_data [OF d6'] by simp
  also have "\<dots> = (StructPtr (?L + 1), None)"
    using Struct_Ptr_SetPtr_same [OF p6'] by (simp add: Struct_ToPtr_def)
  finally show "Call_Target ar' (StructAt ?L) = (StructAt (?L + 1), None)"
    by (simp add: Call_Target_def Ptr_Struct_def)

  txt \<open>The target.\<close>
  have "get_data ar' (StructAt (?L + 1)) 4 2 = get_data ar6a (StructAt (?L + 1)) 4 2"
    using get_data_set_data_disjoint [OF d7', of 4 2] by simp
  also have "\<dots> = 0" using get_data_set_data_same [OF d6'] by simp
  finally show "MessageTarget_Which ar' (StructAt (?L + 1)) = 0"
    by (simp add: MessageTarget_Which_def Struct_Uint16_def)
  have "get_data ar' (StructAt (?L + 1)) 0 4 = 3"
    using get_data_set_data_same [OF d7'] by simp
  then show "MessageTarget_ImportedCap ar' (StructAt (?L + 1)) = 3"
    by (simp add: MessageTarget_ImportedCap_def Struct_Uint32_def)

  txt \<open>Root pointer and write history.\<close>
  show "root ar' = root ar"
    using NewStruct_frame(3) [OF n1'] set_data_frame(2) [OF d1'] SetPtr_frame(2) [OF p2']
      set_data_frame(2) [OF d3'] set_data_frame(2) [OF d4'] set_data_frame(2) [OF d5']
      NewStruct_frame(3) [OF n5'] SetPtr_frame(2) [OF p6'] set_data_frame(2) [OF d6']
      set_data_frame(2) [OF d7']
    by simp
  show "writes ar' = writes ar @
           [WData a 0 2, WPtr a 0, WData ?L 0 4, WData ?L 8 8, WData ?L 4 2, WPtr ?L 0,
            WData (?L + 1) 4 2, WData (?L + 1) 0 4]"
    using NewStruct_frame(5) [OF n1'] set_data_frame(4) [OF d1'] SetPtr_frame(4) [OF p2']
      set_data_frame(4) [OF d3'] set_data_frame(4) [OF d4'] set_data_frame(4) [OF d5']
      NewStruct_frame(5) [OF n5'] SetPtr_frame(4) [OF p6'] set_data_frame(4) [OF d6']
      set_data_frame(4) [OF d7']
    by simp
qed


lemma call_scenario_succeeds:
  assumes valid: "cell_of ar rmsg = Some (a, c)" and c: "2 \<le> length (cdata c)" "0 < length (cptrs c)"
    and rm: "8 \<le> room ar"
  shows "\<exists>ar'. call_scenario rmsg ar = Some ar'"
proof -
  let ?L = "length (cells ar)"
  from valid have r: "rmsg = StructAt a" "a < ?L"
    by (cases rmsg; simp add: cell_of_def split: if_splits)+
  from valid r(1) have sa: "shape ar ! a = (length (cdata c), length (cptrs c))"
    using cell_of_shape by blast
  from rm obtain call ar1 where
    n1: "capnp_NewStruct \<lparr>DataSize = 24, PointerCount = 3\<rparr> ar = ((call, None), ar1)"
    using NewStruct_iff_room [of "\<lparr>DataSize = 24, PointerCount = 3\<rparr>" ar]
    by (auto simp: words_of_def)
  have call: "call = StructAt ?L" by (rule NewStruct_frame(1) [OF n1])
  have sh1: "shape ar1 = shape ar @ [(24, 3)]" and rm1: "room ar1 = room ar - 6"
    using NewStruct_frame(2,4) [OF n1] by (simp_all add: words_of_def)
  from sh1 r(2) sa c obtain ar1a where d1: "set_data (StructAt a) 0 2 2 ar1 = Some ar1a"
    using set_data_iff_shape [of a 0 2 2 ar1] by (auto simp: nth_append)
  note f1 = set_data_frame [OF d1]
  from f1(1) sh1 r(2) sa c obtain ar2 where
    p2: "Struct_SetPtr (StructAt a) 0 (Struct_ToPtr call) ar1a = Some (None, ar2)"
    using SetPtr_iff_shape [of a 0 "Struct_ToPtr call" ar1a] by (auto simp: nth_append)
  note f2 = SetPtr_frame [OF p2]
  have sh2: "shape ar2 = shape ar @ [(24, 3)]" using f2(1) f1(1) sh1 by simp
  then obtain ar3 where d3: "set_data (StructAt ?L) 0 4 7 ar2 = Some ar3"
    using set_data_iff_shape [of ?L 0 4 7 ar2] by (auto simp: nth_append)
  note f3 = set_data_frame [OF d3]
  from f3(1) sh2 obtain ar4 where d4: "set_data (StructAt ?L) 8 8 1 ar3 = Some ar4"
    using set_data_iff_shape [of ?L 8 8 1 ar3] by (auto simp: nth_append)
  note f4 = set_data_frame [OF d4]
  from f4(1) f3(1) sh2 obtain ar5 where d5: "set_data (StructAt ?L) 4 2 2 ar4 = Some ar5"
    using set_data_iff_shape [of ?L 4 2 2 ar4] by (auto simp: nth_append)
  note f5 = set_data_frame [OF d5]
  have sh5: "shape ar5 = shape ar @ [(24, 3)]" using f5(1) f4(1) f3(1) sh2 by simp
  have rm5: "room ar5 = room ar - 6"
    using f5(3) f4(3) f3(3) f2(3) f1(3) rm1 by simp
  with rm obtain tgt ar5a where
    n5: "capnp_NewStruct \<lparr>DataSize = 8, PointerCount = 1\<rparr> ar5 = ((tgt, None), ar5a)"
    using NewStruct_iff_room [of "\<lparr>DataSize = 8, PointerCount = 1\<rparr>" ar5]
    by (auto simp: words_of_def)
  from sh5 have "length (shape ar5) = ?L + 1" by simp
  then have len5: "length (cells ar5) = ?L + 1" by simp
  have tgt: "tgt = StructAt (?L + 1)" using NewStruct_frame(1) [OF n5] len5 by simp
  have sh5a: "shape ar5a = shape ar @ [(24, 3), (8, 1)]"
    using NewStruct_frame(2) [OF n5] sh5 by simp
  then obtain ar6 where
    p6: "Struct_SetPtr (StructAt ?L) 0 (Struct_ToPtr tgt) ar5a = Some (None, ar6)"
    using SetPtr_iff_shape [of ?L 0 "Struct_ToPtr tgt" ar5a] by (auto simp: nth_append)
  note f6 = SetPtr_frame [OF p6]
  from f6(1) sh5a obtain ar6a where d6: "set_data (StructAt (?L + 1)) 4 2 0 ar6 = Some ar6a"
    using set_data_iff_shape [of "?L + 1" 4 2 0 ar6] by (auto simp: nth_append)
  note f6a = set_data_frame [OF d6]
  from f6a(1) f6(1) sh5a obtain ar' where d7: "set_data (StructAt (?L + 1)) 0 4 3 ar6a = Some ar'"
    using set_data_iff_shape [of "?L + 1" 0 4 3 ar6a] by (auto simp: nth_append)
  from n1 d1 p2 d3 d4 d5 n5 p6 d6 d7 show ?thesis
    unfolding call_scenario_Some r(1) call tgt by blast
qed

text \<open>What the peer decodes reads like what was encoded.\<close>

lemma cell_of_message_of_frame: "cell_of (message_of (frame_of ar)) s = cell_of ar s"
  by (cases s) (simp_all add: message_of_def frame_of_def cell_of_def)

lemma message_of_frame_reads:
  "get_data (message_of (frame_of ar)) s off n = get_data ar s off n"
  "Struct_Ptr (message_of (frame_of ar)) s i = Struct_Ptr ar s i"
  "root (message_of (frame_of ar)) = root ar"
  by (simp_all add: get_data_def Struct_Ptr_def cell_of_message_of_frame)
     (simp add: message_of_def frame_of_def)

section \<open>The envelope\<close>

text \<open>
  C6: a newly allocated \<open>Return\<close> has \<open>ReleaseParamCaps() = true\<close> and accepts
  \<open>SetReleaseParamCaps\<close>; after \<open>SetReleaseParamCaps(v)\<close> on any \<open>Return\<close>,
  \<open>ReleaseParamCaps()\<close> returns \<open>v\<close>. The same holds for \<open>Finish\<close> and
  \<open>ReleaseResultCaps\<close>.
\<close>

theorem release_caps_default_and_round_trip:
  "(NewReturn ar = ((r, None), ar1) \<longrightarrow>
      Return_ReleaseParamCaps ar1 r \<and> (\<exists>ar2. Return_SetReleaseParamCaps r v ar1 = Some ar2)) \<and>
   (Return_SetReleaseParamCaps r' v br = Some br' \<longrightarrow> Return_ReleaseParamCaps br' r' = v) \<and>
   (NewFinish cr = ((f, None), cr1) \<longrightarrow>
      Finish_ReleaseResultCaps cr1 f \<and> (\<exists>cr2. Finish_SetReleaseResultCaps f v cr1 = Some cr2)) \<and>
   (Finish_SetReleaseResultCaps f' v dr = Some dr' \<longrightarrow> Finish_ReleaseResultCaps dr' f' = v)"
proof (intro conjI impI)
  assume "NewReturn ar = ((r, None), ar1)"
  then have n: "capnp_NewStruct \<lparr>DataSize = 16, PointerCount = 1\<rparr> ar = ((r, None), ar1)"
    by (simp add: NewReturn_def)
  show "Return_ReleaseParamCaps ar1 r"
    using Struct_Bit_new [OF n] by (simp add: Return_ReleaseParamCaps_def)
  show "\<exists>ar2. Return_SetReleaseParamCaps r v ar1 = Some ar2"
    using Struct_SetBit_new [OF n, of 32] by (simp add: Return_SetReleaseParamCaps_def)
next
  assume "Return_SetReleaseParamCaps r' v br = Some br'"
  then show "Return_ReleaseParamCaps br' r' = v"
    using Struct_Bit_SetBit_same [of r' 32 "\<not> v" br br']
    by (simp add: Return_SetReleaseParamCaps_def Return_ReleaseParamCaps_def)
next
  assume "NewFinish cr = ((f, None), cr1)"
  then have n: "capnp_NewStruct \<lparr>DataSize = 8, PointerCount = 0\<rparr> cr = ((f, None), cr1)"
    by (simp add: NewFinish_def)
  show "Finish_ReleaseResultCaps cr1 f"
    using Struct_Bit_new [OF n] by (simp add: Finish_ReleaseResultCaps_def)
  show "\<exists>cr2. Finish_SetReleaseResultCaps f v cr1 = Some cr2"
    using Struct_SetBit_new [OF n, of 32] by (simp add: Finish_SetReleaseResultCaps_def)
next
  assume "Finish_SetReleaseResultCaps f' v dr = Some dr'"
  then show "Finish_ReleaseResultCaps dr' f' = v"
    using Struct_Bit_SetBit_same [of f' 32 "\<not> v" dr dr']
    by (simp add: Finish_SetReleaseResultCaps_def Finish_ReleaseResultCaps_def)
qed

theorem release_caps_default_and_round_trip_witness:
  "NewReturn (new_arena 3) = ((StructAt 0, None), snd (NewReturn (new_arena 3))) \<and>
   Return_ReleaseParamCaps (snd (NewReturn (new_arena 3))) (StructAt 0) \<and>
   Return_SetReleaseParamCaps (StructAt 0) False (snd (NewReturn (new_arena 3))) =
     Some (the (Return_SetReleaseParamCaps (StructAt 0) False (snd (NewReturn (new_arena 3))))) \<and>
   \<not> Return_ReleaseParamCaps
       (the (Return_SetReleaseParamCaps (StructAt 0) False (snd (NewReturn (new_arena 3)))))
       (StructAt 0) \<and>
   NewFinish (new_arena 1) = ((StructAt 0, None), snd (NewFinish (new_arena 1))) \<and>
   Finish_ReleaseResultCaps (snd (NewFinish (new_arena 1))) (StructAt 0) \<and>
   Finish_SetReleaseResultCaps (StructAt 0) False (snd (NewFinish (new_arena 1))) =
     Some (the (Finish_SetReleaseResultCaps (StructAt 0) False (snd (NewFinish (new_arena 1))))) \<and>
   \<not> Finish_ReleaseResultCaps
       (the (Finish_SetReleaseResultCaps (StructAt 0) False (snd (NewFinish (new_arena 1)))))
       (StructAt 0)"
  using release_caps_default_and_round_trip
    [of "new_arena 3" "StructAt 0" "snd (NewReturn (new_arena 3))" False
        "StructAt 0" "snd (NewReturn (new_arena 3))"
        "the (Return_SetReleaseParamCaps (StructAt 0) False (snd (NewReturn (new_arena 3))))"
        "new_arena 1" "StructAt 0" "snd (NewFinish (new_arena 1))"
        "StructAt 0" "snd (NewFinish (new_arena 1))"
        "the (Finish_SetReleaseResultCaps (StructAt 0) False (snd (NewFinish (new_arena 1))))"]
  by (simp add: NewReturn_def NewFinish_def Return_SetReleaseParamCaps_def
        Finish_SetReleaseResultCaps_def buffer_defs)

text \<open>
  C7: the \<open>Call\<close> envelope of scenario 1 (\<open>questionId = 7\<close>, \<open>interfaceId = 0x1\<close>,
  \<open>methodId = 2\<close>, target \<open>importedCap(3)\<close>), allocated by \<open>NewMessage\<close>, built and
  sent on a stream that does not fail, is received by the peer with \<open>Which() = call\<close> and
  \<open>Call().QuestionId() = 7\<close>. The two union setters the scenario uses write the
  discriminant first: \<open>SetCall\<close> writes the two bytes at offset 0 and then pointer 0,
  \<open>SetImportedCap\<close> the two bytes at offset 4 and then the four bytes at offset 0.
\<close>

theorem call_envelope_round_trip:
  "(10 \<le> n \<and> (\<forall>h c. respond r h c = None) \<and> encoded (calls r) = [] \<and> incoming p = [] \<longrightarrow>
      call_round_trip n ctx r p = Some (Message_Which_call, 7)) \<and>
   (Message_SetCall s v ar = Some (e, ar') \<longrightarrow>
      (\<exists>a. s = StructAt a \<and> writes ar' = writes ar @ [WData a 0 2, WPtr a 0])) \<and>
   (MessageTarget_SetImportedCap t w br = Some br' \<longrightarrow>
      (\<exists>b. t = StructAt b \<and> writes br' = writes br @ [WData b 4 2, WData b 0 4]))"
proof (intro conjI impI)
  assume h: "10 \<le> n \<and> (\<forall>h c. respond r h c = None) \<and> encoded (calls r) = [] \<and> incoming p = []"
  let ?s = "NewStreamTransport r"
  let ?sz = "\<lparr>DataSize = 8, PointerCount = 1\<rparr>"
  let ?A = "(new_arena n)\<lparr>cells := [zero_cell ?sz], room := n - 2, root := Good (StructPtr 0),
                           writes := [WRoot]\<rparr>"
  let ?nm = "NewMessage ?s ctx (new_arena n, None)"
  from h have nr: "NewRootMessage (new_arena n) = ((StructAt 0, None), ?A)"
    by (simp add: NewRootMessage_def capnp_NewRootStruct_def capnp_NewStruct_def words_of_def
                  new_arena_def Struct_ToPtr_def)
  then have nm: "nm_root ?nm = StructAt 0" "nm_msg ?nm = ?A" "nm_send ?nm = send ctx"
    by (simp_all add: NewMessage_def)
  have valid: "cell_of ?A (StructAt 0) = Some (0, zero_cell ?sz)"
    by (simp add: cell_of_def)
  from h have "8 \<le> room ?A" by auto
  from call_scenario_succeeds [OF valid _ _ this] obtain ar where
    sc: "call_scenario (StructAt 0) ?A = Some ar"
    by (auto simp: zero_cell_def)
  note rd = call_scenario_reads [OF sc valid]
  let ?s' = "snd (send ctx ar ?s)"
  from h have sent: "fst (send ctx ar ?s) = None"
    "encoded (calls (stream ?s')) = [frame_of ar]"
    by (auto simp: send_def invoke_def as_error_def NewStreamTransport_def Let_def encoded_def
             split: option.splits)
  let ?peer = "NewStreamTransport (connect (stream ?s') p)"
  let ?msg = "message_of (frame_of ar)"
  from h sent(2) have inc: "incoming (stream ?peer) = [Inr (frame_of ar)]"
    by (simp add: connect_def NewStreamTransport_def)
  have rroot: "ReadRootMessage ?msg = (StructAt 0, None)"
    using rd(9) by (simp add: ReadRootMessage_def Message_RootPtr_def message_of_frame_reads
                              read_slot_def Ptr_Struct_def)
  from inc rroot have dr: "decode_root ?peer =
      Some (((StructAt 0, ?msg), None), ?peer\<lparr>stream := (stream ?peer)\<lparr>incoming := []\<rparr>\<rparr>)"
    by (simp add: decode_root_def Decode_def as_error_def)
  have "recv ?peer = closerReceiver \<or> recv ?peer = signalReceiver False"
    by (simp add: NewStreamTransport_def)
  with dr have rv: "RecvMessage ?peer =
      Some (((StructAt 0, ?msg), None), ?peer\<lparr>stream := (stream ?peer)\<lparr>incoming := []\<rparr>\<rparr>)"
    by (auto simp: RecvMessage_def)
  have w: "Message_Which ?msg (StructAt 0) = Message_Which_call"
    using rd(1) by (simp add: Message_Which_def Struct_Uint16_def message_of_frame_reads)
  have c: "Message_Call ?msg (StructAt 0) = (StructAt 1, None)"
    using rd(2) by (simp add: Message_Call_def message_of_frame_reads)
  have q: "Call_QuestionId ?msg (StructAt 1) = 7"
    using rd(3) by (simp add: Call_QuestionId_def Struct_Uint32_def message_of_frame_reads)
  from sc sent(1) rv w c q show "call_round_trip n ctx r p = Some (Message_Which_call, 7)"
    by (simp add: call_round_trip_def nm Let_def split_beta)
next
  assume "Message_SetCall s v ar = Some (e, ar')"
  then obtain ar1 where d: "set_data s 0 2 2 ar = Some ar1"
    and q: "Struct_SetPtr s 0 (Struct_ToPtr v) ar1 = Some (e, ar')"
    by (auto simp: Message_SetCall_Some)
  from d obtain a where a: "s = StructAt a" by (auto simp: set_data_Some)
  with set_data_frame(4) [OF d [unfolded a]] SetPtr_frame(4) [OF q [unfolded a]]
  show "\<exists>a. s = StructAt a \<and> writes ar' = writes ar @ [WData a 0 2, WPtr a 0]"
    by simp
next
  assume "MessageTarget_SetImportedCap t w br = Some br'"
  then obtain br1 where d: "set_data t 4 2 0 br = Some br1"
    and d': "set_data t 0 4 (unat w) br1 = Some br'"
    by (auto simp: MessageTarget_SetImportedCap_Some)
  from d obtain b where b: "t = StructAt b" by (auto simp: set_data_Some)
  with set_data_frame(4) [OF d [unfolded b]] set_data_frame(4) [OF d' [unfolded b]]
  show "\<exists>b. t = StructAt b \<and> writes br' = writes br @ [WData b 4 2, WData b 0 4]"
    by simp
qed

theorem call_envelope_round_trip_witness:
  "(10::nat) \<le> 10 \<and> (\<forall>h c. respond quiet_rwc h c = None) \<and> encoded (calls quiet_rwc) = [] \<and>
   incoming plain_rwc = [] \<and>
   call_round_trip 10 \<lparr>Deadline = Some 1700\<rparr> quiet_rwc plain_rwc = Some (Message_Which_call, 7) \<and>
   Message_SetCall (StructAt 0) ZeroStruct tagged_arena =
     Some (None, snd (the (Message_SetCall (StructAt 0) ZeroStruct tagged_arena))) \<and>
   writes (snd (the (Message_SetCall (StructAt 0) ZeroStruct tagged_arena))) =
     [WData 0 0 2, WPtr 0 0] \<and>
   MessageTarget_SetImportedCap (StructAt 0) 3 tagged_arena =
     Some (the (MessageTarget_SetImportedCap (StructAt 0) 3 tagged_arena)) \<and>
   writes (the (MessageTarget_SetImportedCap (StructAt 0) 3 tagged_arena)) =
     [WData 0 4 2, WData 0 0 4]"
proof -
  have h: "(10::nat) \<le> 10 \<and> (\<forall>h c. respond quiet_rwc h c = None) \<and>
           encoded (calls quiet_rwc) = [] \<and> incoming plain_rwc = []"
    by (simp add: quiet_rwc_def plain_rwc_def encoded_def)
  have s: "Message_SetCall (StructAt 0) ZeroStruct tagged_arena =
             Some (None, snd (the (Message_SetCall (StructAt 0) ZeroStruct tagged_arena)))"
    by (simp add: Message_SetCall_def Struct_SetUint16_def set_data_def Struct_SetPtr_def
                  cell_of_def tagged_arena_def)
  have i: "MessageTarget_SetImportedCap (StructAt 0) 3 tagged_arena =
             Some (the (MessageTarget_SetImportedCap (StructAt 0) 3 tagged_arena))"
    by (simp add: MessageTarget_SetImportedCap_def Struct_SetUint16_def Struct_SetUint32_def
                  set_data_def cell_of_def tagged_arena_def length_patch)
  have w: "writes tagged_arena = []" by (simp add: tagged_arena_def)
  from call_envelope_round_trip
         [of 10 quiet_rwc plain_rwc "\<lparr>Deadline = Some 1700\<rparr>"
             "StructAt 0" ZeroStruct tagged_arena None
             "snd (the (Message_SetCall (StructAt 0) ZeroStruct tagged_arena))"
             "StructAt 0" 3 tagged_arena
             "the (MessageTarget_SetImportedCap (StructAt 0) 3 tagged_arena)"]
       h s i w
  show ?thesis by auto
qed

text \<open>
  C8: when the transform of a \<open>PromisedAnswer\<close> has been created with
  \<open>NewTransform(2)\<close> and its elements set to \<open>getPointerField(0)\<close> and
  \<open>getPointerField(1)\<close>, the list behind \<open>Transform()\<close> has length 2 and reads,
  from index 0 on, as \<open>getPointerField(0)\<close>, \<open>getPointerField(1)\<close>. The second
  conjunct: on a \<open>PromisedAnswer\<close> struct with its pointer slot, in an arena with room
  for three words, building does succeed.
\<close>

theorem transform_round_trip:
  "(transform_scenario pa ar = Some ar' \<longrightarrow>
      List_Len (fst (PromisedAnswer_Transform ar' pa)) = 2 \<and>
      read_transform ar' pa =
        Some [(PromisedAnswer_Op_Which_getPointerField, 0),
              (PromisedAnswer_Op_Which_getPointerField, 1)]) \<and>
   (cell_of br pb = Some (a, c) \<and> 0 < length (cptrs c) \<and> 3 \<le> room br \<longrightarrow>
      (\<exists>br'. transform_scenario pb br = Some br'))"
proof (intro conjI impI)
  assume "transform_scenario pa ar = Some ar'"
  then obtain l ar1 op0 ar2 op1 where
    nt: "ok_new (PromisedAnswer_NewTransform pa 2 ar) = Some (l, ar1)" and
    at0: "PromisedAnswer_Op_List_At l 0 = Some op0" and
    s0: "PromisedAnswer_Op_SetGetPointerField op0 0 ar1 = Some ar2" and
    at1: "PromisedAnswer_Op_List_At l 1 = Some op1" and
    s1: "PromisedAnswer_Op_SetGetPointerField op1 1 ar2 = Some ar'"
    by (auto simp: transform_scenario_def bind_eq_Some_conv)
  let ?L = "length (cells ar)"
  from NewTransform_ok(2) [OF nt] have l: "l = ListAt ?L 2" by simp
  from at0 at1 l have ops: "op0 = StructAt ?L" "op1 = StructAt (?L + 1)"
    by (simp_all add: PromisedAnswer_Op_List_At_def List_Struct_def)
  have "Struct_Ptr ar' pa 0 = Struct_Ptr ar1 pa 0"
    using SetGetPointerField_reads(4) [OF s1] SetGetPointerField_reads(4) [OF s0] by simp
  with NewTransform_ok(3) [OF nt] have tr: "PromisedAnswer_Transform ar' pa = (ListAt ?L 2, None)"
    by (simp add: PromisedAnswer_Transform_def Ptr_List_def)
  then show "List_Len (fst (PromisedAnswer_Transform ar' pa)) = 2"
    by (simp add: List_Len_def)
  have ne: "op0 \<noteq> op1" using ops by simp
  have w0: "PromisedAnswer_Op_Which ar' op0 = PromisedAnswer_Op_Which_getPointerField"
    using SetGetPointerField_reads(3) [OF s1 ne, of 0 2] SetGetPointerField_reads(1) [OF s0]
    by (simp add: PromisedAnswer_Op_Which_def Struct_Uint16_def)
  have g0: "PromisedAnswer_Op_GetPointerField ar' op0 = 0"
    using SetGetPointerField_reads(3) [OF s1 ne, of 2 2] SetGetPointerField_reads(2) [OF s0]
    by (simp add: PromisedAnswer_Op_GetPointerField_def Struct_Uint16_def)
  note w1 = SetGetPointerField_reads(1) [OF s1]
  note g1 = SetGetPointerField_reads(2) [OF s1]
  have "[0..<2] = [0, Suc 0]" by (simp add: upt_rec)
  with tr w0 g0 w1 g1 ops l at0 at1 show "read_transform ar' pa =
        Some [(PromisedAnswer_Op_Which_getPointerField, 0),
              (PromisedAnswer_Op_Which_getPointerField, 1)]"
    by (simp add: read_transform_def List_Len_def PromisedAnswer_Op_List_At_def List_Struct_def)
next
  assume h: "cell_of br pb = Some (a, c) \<and> 0 < length (cptrs c) \<and> 3 \<le> room br"
  let ?sz = "\<lparr>DataSize = 8, PointerCount = 0\<rparr>"
  let ?L = "length (cells br)"
  let ?br0 = "br\<lparr>cells := cells br @ replicate (nat 2) (zero_cell ?sz),
                   room := room br - (1 + nat 2 * words_of ?sz)\<rparr>"
  from h have pb: "pb = StructAt a" "a < ?L" "c = cells br ! a"
    by (cases pb; simp add: cell_of_def split: if_splits)+
  from h have nl: "capnp_NewCompositeList ?sz 2 br = ((ListAt ?L (nat 2), None), ?br0)"
    by (simp add: capnp_NewCompositeList_ok words_of_def)
  from pb h have "\<exists>e br1. Struct_SetPtr pb 0 (ListPtr ?L 2) ?br0 = Some (e, br1)"
    by (simp add: Struct_SetPtr_Some nth_append)
  then obtain e br1 where sp: "Struct_SetPtr pb 0 (ListPtr ?L 2) ?br0 = Some (e, br1)" by blast
  then have e: "e = None" by (auto simp: Struct_SetPtr_Some)
  from nl sp e have nt: "ok_new (PromisedAnswer_NewTransform pb 2 br) = Some (ListAt ?L 2, br1)"
    by (simp add: ok_new_def ok_def PromisedAnswer_NewTransform_def NewPromisedAnswer_Op_List_def
                  List_ToPtr_def)
  have c0: "cell_of br1 (StructAt (?L + 0)) = Some (?L + 0, zero_cell ?sz)"
    by (rule NewTransform_ok(5) [OF nt]) simp
  have c1: "cell_of br1 (StructAt (?L + 1)) = Some (?L + 1, zero_cell ?sz)"
    by (rule NewTransform_ok(5) [OF nt]) simp
  have len: "length (cdata (zero_cell ?sz)) = 8" by (simp add: zero_cell_def)
  from SetGetPointerField_succeeds [of br1 "StructAt (?L + 0)" "?L + 0" "zero_cell ?sz" 0] c0 len
  obtain br2 where s0: "PromisedAnswer_Op_SetGetPointerField (StructAt ?L) 0 br1 = Some br2"
    by auto
  from SetGetPointerField_reads(5) [OF s0 c1] len obtain c' where
    "cell_of br2 (StructAt (?L + 1)) = Some (?L + 1, c')" "4 \<le> length (cdata c')" by auto
  from SetGetPointerField_succeeds [OF this, of 1]
  obtain br3 where s1: "PromisedAnswer_Op_SetGetPointerField (StructAt (?L + 1)) 1 br2 = Some br3"
    by auto
  from nt s0 s1 show "\<exists>br'. transform_scenario pb br = Some br'"
    by (simp add: transform_scenario_def PromisedAnswer_Op_List_At_def List_Struct_def)
qed

theorem transform_round_trip_witness:
  "cell_of (snd (NewPromisedAnswer (new_arena 5))) (StructAt 0) =
     Some (0, zero_cell \<lparr>DataSize = 8, PointerCount = 1\<rparr>) \<and>
   0 < length (cptrs (zero_cell \<lparr>DataSize = 8, PointerCount = 1\<rparr>)) \<and>
   3 \<le> room (snd (NewPromisedAnswer (new_arena 5))) \<and>
   transform_scenario (StructAt 0) (snd (NewPromisedAnswer (new_arena 5))) =
     Some (the (transform_scenario (StructAt 0) (snd (NewPromisedAnswer (new_arena 5))))) \<and>
   read_transform (the (transform_scenario (StructAt 0) (snd (NewPromisedAnswer (new_arena 5)))))
       (StructAt 0) =
     Some [(PromisedAnswer_Op_Which_getPointerField, 0),
           (PromisedAnswer_Op_Which_getPointerField, 1)]"
proof -
  let ?ar = "snd (NewPromisedAnswer (new_arena 5))"
  let ?c = "zero_cell \<lparr>DataSize = 8, PointerCount = 1\<rparr>"
  have c: "cell_of ?ar (StructAt 0) = Some (0, ?c)"
    by (simp add: NewPromisedAnswer_def capnp_NewStruct_def words_of_def new_arena_def cell_of_def)
  have p: "0 < length (cptrs ?c)"
    by (simp add: zero_cell_def)
  have r: "3 \<le> room ?ar"
    by (simp add: NewPromisedAnswer_def capnp_NewStruct_def words_of_def new_arena_def)
  from transform_round_trip [of _ _ _ ?ar "StructAt 0" 0 ?c] c p r
  obtain br' where b: "transform_scenario (StructAt 0) ?ar = Some br'" by blast
  from transform_round_trip [of "StructAt 0" ?ar br'] b
  have "read_transform br' (StructAt 0) =
     Some [(PromisedAnswer_Op_Which_getPointerField, 0),
           (PromisedAnswer_Op_Which_getPointerField, 1)]" by blast
  with b c p r show ?thesis by simp
qed

text \<open>
  C10: every \<open>Has\<close> accessor of a union member of \<open>Message\<close>, \<open>Return\<close> and
  \<open>CapDescriptor\<close> returns false when the discriminant, as \<open>Which()\<close> reads it, is
  not the member's tag, whatever the pointer slot holds. The witness is a struct whose
  discriminants are all 99 and whose pointer 0 is set.
\<close>

theorem has_false_on_other_tag:
  "(Message_Which ar s \<noteq> 0 \<longrightarrow> \<not> Message_HasUnimplemented ar s) \<and>
   (Message_Which ar s \<noteq> 1 \<longrightarrow> \<not> Message_HasAbort ar s) \<and>
   (Message_Which ar s \<noteq> 8 \<longrightarrow> \<not> Message_HasBootstrap ar s) \<and>
   (Message_Which ar s \<noteq> 2 \<longrightarrow> \<not> Message_HasCall ar s) \<and>
   (Message_Which ar s \<noteq> 3 \<longrightarrow> \<not> Message_HasReturn ar s) \<and>
   (Message_Which ar s \<noteq> 4 \<longrightarrow> \<not> Message_HasFinish ar s) \<and>
   (Message_Which ar s \<noteq> 5 \<longrightarrow> \<not> Message_HasResolve ar s) \<and>
   (Message_Which ar s \<noteq> 6 \<longrightarrow> \<not> Message_HasRelease ar s) \<and>
   (Message_Which ar s \<noteq> 13 \<longrightarrow> \<not> Message_HasDisembargo ar s) \<and>
   (Message_Which ar s \<noteq> 7 \<longrightarrow> \<not> Message_HasObsoleteSave ar s) \<and>
   (Message_Which ar s \<noteq> 9 \<longrightarrow> \<not> Message_HasObsoleteDelete ar s) \<and>
   (Message_Which ar s \<noteq> 10 \<longrightarrow> \<not> Message_HasProvide ar s) \<and>
   (Message_Which ar s \<noteq> 11 \<longrightarrow> \<not> Message_HasAccept ar s) \<and>
   (Message_Which ar s \<noteq> 12 \<longrightarrow> \<not> Message_HasJoin ar s) \<and>
   (Return_Which ar s \<noteq> 0 \<longrightarrow> \<not> Return_HasResults ar s) \<and>
   (Return_Which ar s \<noteq> 1 \<longrightarrow> \<not> Return_HasException ar s) \<and>
   (Return_Which ar s \<noteq> 5 \<longrightarrow> \<not> Return_HasAcceptFromThirdParty ar s) \<and>
   (CapDescriptor_Which ar s \<noteq> 4 \<longrightarrow> \<not> CapDescriptor_HasReceiverAnswer ar s) \<and>
   (CapDescriptor_Which ar s \<noteq> 5 \<longrightarrow> \<not> CapDescriptor_HasThirdPartyHosted ar s)"
  unfolding Message_Which_def Return_Which_def CapDescriptor_Which_def
  by (simp add: Message_HasUnimplemented_def Message_HasAbort_def Message_HasBootstrap_def
      Message_HasCall_def Message_HasReturn_def Message_HasFinish_def Message_HasResolve_def
      Message_HasRelease_def Message_HasDisembargo_def Message_HasObsoleteSave_def
      Message_HasObsoleteDelete_def Message_HasProvide_def Message_HasAccept_def
      Message_HasJoin_def Return_HasResults_def Return_HasException_def
      Return_HasAcceptFromThirdParty_def CapDescriptor_HasReceiverAnswer_def
      CapDescriptor_HasThirdPartyHosted_def)

lemma tagged_arena_reads:
  "Message_Which tagged_arena (StructAt 0) = 99"
  "Return_Which tagged_arena (StructAt 0) = 99"
  "CapDescriptor_Which tagged_arena (StructAt 0) = 99"
  "Struct_Ptr tagged_arena (StructAt 0) 0 = (StructPtr 0, None)"
  by (simp_all add: Message_Which_def Return_Which_def CapDescriptor_Which_def tagged_arena_def
        Struct_Uint16_def get_data_def cell_of_def Struct_Ptr_def read_slot_def)

theorem has_false_on_other_tag_witness:
  "Message_Which tagged_arena (StructAt 0) = 99 \<and>
   Return_Which tagged_arena (StructAt 0) = 99 \<and>
   CapDescriptor_Which tagged_arena (StructAt 0) = 99 \<and>
   Ptr_IsValid (fst (Struct_Ptr tagged_arena (StructAt 0) 0)) \<and>
   \<not> Message_HasUnimplemented tagged_arena (StructAt 0) \<and>
   \<not> Message_HasAbort tagged_arena (StructAt 0) \<and>
   \<not> Message_HasBootstrap tagged_arena (StructAt 0) \<and>
   \<not> Message_HasCall tagged_arena (StructAt 0) \<and>
   \<not> Message_HasReturn tagged_arena (StructAt 0) \<and>
   \<not> Message_HasFinish tagged_arena (StructAt 0) \<and>
   \<not> Message_HasResolve tagged_arena (StructAt 0) \<and>
   \<not> Message_HasRelease tagged_arena (StructAt 0) \<and>
   \<not> Message_HasDisembargo tagged_arena (StructAt 0) \<and>
   \<not> Message_HasObsoleteSave tagged_arena (StructAt 0) \<and>
   \<not> Message_HasObsoleteDelete tagged_arena (StructAt 0) \<and>
   \<not> Message_HasProvide tagged_arena (StructAt 0) \<and>
   \<not> Message_HasAccept tagged_arena (StructAt 0) \<and>
   \<not> Message_HasJoin tagged_arena (StructAt 0) \<and>
   \<not> Return_HasResults tagged_arena (StructAt 0) \<and>
   \<not> Return_HasException tagged_arena (StructAt 0) \<and>
   \<not> Return_HasAcceptFromThirdParty tagged_arena (StructAt 0) \<and>
   \<not> CapDescriptor_HasReceiverAnswer tagged_arena (StructAt 0) \<and>
   \<not> CapDescriptor_HasThirdPartyHosted tagged_arena (StructAt 0)"
  using has_false_on_other_tag [of tagged_arena "StructAt 0"]
  by (simp add: tagged_arena_reads Ptr_IsValid_def)

section \<open>Closing the transport\<close>

lemma word8_bits [simp]:
  "(0::8 word) OR 1 = 1" "(0::8 word) OR 2 = 2" "(1::8 word) OR 2 = 3" "(2::8 word) OR 1 = 3"
  "(1::8 word) AND 2 = 0" "(2::8 word) AND 1 = 0" "(3::8 word) AND 1 = 1" "(3::8 word) AND 2 = 2"
  "(0::8 word) AND 1 = 0" "(0::8 word) AND 2 = 0"
  by simp_all

lemmas transport_defs =
  CloseSend_def CloseRecv_def NewStreamTransport_def recv_CloseRecv_def invoke_def
  as_error_def Let_def close_count_def

text \<open>
  C1, as stated, fails. On a stream whose \<open>CloseWrite\<close> and \<open>Close\<close> both fail,
  \<open>CloseRecv\<close> followed by \<open>CloseSend\<close> makes \<open>CloseSend\<close> the call that sees both
  bits set; its half-close step returns "write half-close failed", the final \<open>Close\<close>
  returns "close failed", and \<open>CloseSend\<close> returns the error of the final \<open>Close\<close>,
  not that of the half-close step.
\<close>

theorem half_close_error_preferred_counterexample:
  "closes (snd (CloseRecv (NewStreamTransport failing_rwc))) OR 1 = 3 \<and>
   calls (stream (snd (CloseSend (snd (CloseRecv (NewStreamTransport failing_rwc)))))) =
     [CloseRead, CloseWrite, Close] \<and>
   respond failing_rwc [CloseRead] CloseWrite = Some ''write half-close failed'' \<and>
   respond failing_rwc [CloseRead, CloseWrite] Close = Some ''close failed'' \<and>
   fst (CloseSend (snd (CloseRecv (NewStreamTransport failing_rwc)))) =
     Returned (Some (ErrIO ''close failed'')) \<and>
   fst (CloseSend (snd (CloseRecv (NewStreamTransport failing_rwc)))) \<noteq>
     Returned (Some (ErrIO ''write half-close failed''))"
  by (simp add: transport_defs failing_rwc_def)

text \<open>
  C1, amended: in the close call that observes both close bits set, the error of the
  final \<open>Close\<close> is returned whenever \<open>Close\<close> fails, whatever the half-close step
  returned; the result of the half-close step is returned only when the final \<open>Close\<close>
  succeeded. First conjunct: \<open>CloseSend\<close>, whose half-close step is \<open>CloseWrite\<close>.
  Second conjunct: \<open>CloseRecv\<close>, whose half-close step \<open>recv.CloseRecv()\<close> returned
  \<open>rerr\<close> and left the state \<open>s2\<close>.
\<close>

theorem final_close_error_first:
  "(closes s AND 1 \<noteq> 1 \<and> closes s OR 1 = 3 \<and> cw s \<longrightarrow>
      fst (CloseSend s) =
        Returned (case as_error (respond (stream s) (calls (stream s) @ [CloseWrite]) Close) of
                    Some c \<Rightarrow> Some c
                  | None \<Rightarrow> as_error (respond (stream s) (calls (stream s)) CloseWrite))) \<and>
   (closes s AND 2 \<noteq> 2 \<and> closes s OR 2 = 3 \<and>
    recv_CloseRecv (s\<lparr>closes := closes s OR 2\<rparr>) = (Returned rerr, s2) \<longrightarrow>
      fst (CloseRecv s) =
        Returned (case as_error (respond (stream s2) (calls (stream s2)) Close) of
                    Some c \<Rightarrow> Some c
                  | None \<Rightarrow> rerr))"
  by (auto simp: CloseSend_def CloseRecv_def invoke_def Let_def split: option.splits prod.splits)

theorem final_close_error_first_witness:
  "closes (snd (CloseRecv (NewStreamTransport failing_rwc))) AND 1 \<noteq> 1 \<and>
   closes (snd (CloseRecv (NewStreamTransport failing_rwc))) OR 1 = 3 \<and>
   cw (snd (CloseRecv (NewStreamTransport failing_rwc))) \<and>
   fst (CloseSend (snd (CloseRecv (NewStreamTransport failing_rwc)))) =
     Returned (Some (ErrIO ''close failed'')) \<and>
   closes (snd (CloseSend (NewStreamTransport failing_rwc))) AND 2 \<noteq> 2 \<and>
   closes (snd (CloseSend (NewStreamTransport failing_rwc))) OR 2 = 3 \<and>
   fst (recv_CloseRecv ((snd (CloseSend (NewStreamTransport failing_rwc)))\<lparr>closes := 3\<rparr>)) =
     Returned (Some (ErrIO ''read half-close failed'')) \<and>
   fst (CloseRecv (snd (CloseSend (NewStreamTransport failing_rwc)))) =
     Returned (Some (ErrIO ''close failed''))"
  using final_close_error_first [of "snd (CloseRecv (NewStreamTransport failing_rwc))"]
        final_close_error_first [of "snd (CloseSend (NewStreamTransport failing_rwc))"
            "Some (ErrIO ''read half-close failed'')"
            "snd (recv_CloseRecv ((snd (CloseSend (NewStreamTransport failing_rwc)))\<lparr>closes := 3\<rparr>))"]
  by (simp add: transport_defs failing_rwc_def)

text \<open>
  C2: a stream that does not implement \<open>CloseWrite\<close> leaves \<open>s.cw\<close> nil, and the first
  \<open>CloseSend\<close> on the transport built from it panics instead of returning.
\<close>

theorem CloseSend_panics_without_CloseWrite:
  "fst (CloseSend (NewStreamTransport (r\<lparr>implCloseWrite := False\<rparr>))) = Panic"
  by (simp add: CloseSend_def NewStreamTransport_def Let_def)

text \<open>
  C3: a second \<open>CloseSend\<close> returns the already-closed error and changes nothing: not
  the mask, not the calls made on the stream. The same holds for a second \<open>CloseRecv\<close>.
  After the rejected \<open>CloseSend\<close>, with the receive side still open, \<open>CloseRecv\<close> is
  not rejected, sets the mask to 3 and calls the stream's \<open>Close\<close> once; it returns
  \<open>nil\<close> when the stream reports no error.
\<close>

theorem second_close_rejected:
  "(closes s AND 1 = 1 \<longrightarrow> CloseSend s = (Returned (Some ErrSendAlreadyClosed), s)) \<and>
   (closes s AND 2 = 2 \<longrightarrow> CloseRecv s = (Returned (Some ErrRecvAlreadyClosed), s)) \<and>
   (closes s = 1 \<and> recv s \<noteq> signalReceiver True \<longrightarrow>
      close_count (snd (CloseRecv (snd (CloseSend s)))) = close_count s + 1 \<and>
      closes (snd (CloseRecv (snd (CloseSend s)))) = 3 \<and>
      (\<exists>e. fst (CloseRecv (snd (CloseSend s))) = Returned e \<and> e \<noteq> Some ErrRecvAlreadyClosed) \<and>
      ((\<forall>h c. respond (stream s) h c = None) \<longrightarrow>
         fst (CloseRecv (snd (CloseSend s))) = Returned None))"
proof (intro conjI impI)
  assume "closes s AND 1 = 1"
  then show "CloseSend s = (Returned (Some ErrSendAlreadyClosed), s)"
    by (simp add: CloseSend_def)
next
  assume "closes s AND 2 = 2"
  then show "CloseRecv s = (Returned (Some ErrRecvAlreadyClosed), s)"
    by (simp add: CloseRecv_def)
next
  assume a: "closes s = 1 \<and> recv s \<noteq> signalReceiver True"
  then have cs: "CloseSend s = (Returned (Some ErrSendAlreadyClosed), s)"
    by (simp add: CloseSend_def)
  from a show "close_count (snd (CloseRecv (snd (CloseSend s)))) = close_count s + 1"
    unfolding cs
    by (cases "recv s")
       (auto simp: CloseRecv_def recv_CloseRecv_def invoke_def Let_def close_count_def
             split: prod.splits)
  from a show "closes (snd (CloseRecv (snd (CloseSend s)))) = 3"
    unfolding cs
    by (cases "recv s")
       (auto simp: CloseRecv_def recv_CloseRecv_def invoke_def Let_def split: prod.splits)
  from a show "\<exists>e. fst (CloseRecv (snd (CloseSend s))) = Returned e \<and> e \<noteq> Some ErrRecvAlreadyClosed"
    unfolding cs
    by (cases "recv s")
       (auto simp: CloseRecv_def recv_CloseRecv_def invoke_def as_error_def Let_def
             split: prod.splits)
  assume "\<forall>h c. respond (stream s) h c = None"
  with a show "fst (CloseRecv (snd (CloseSend s))) = Returned None"
    unfolding cs
    by (cases "recv s")
       (auto simp: CloseRecv_def recv_CloseRecv_def invoke_def as_error_def Let_def
             split: prod.splits)
qed

theorem second_close_rejected_witness:
  "closes (snd (CloseSend (NewStreamTransport quiet_rwc))) AND 1 = 1 \<and>
   closes (snd (CloseSend (NewStreamTransport quiet_rwc))) = 1 \<and>
   recv (snd (CloseSend (NewStreamTransport quiet_rwc))) \<noteq> signalReceiver True \<and>
   (\<forall>h c. respond (stream (snd (CloseSend (NewStreamTransport quiet_rwc)))) h c = None) \<and>
   CloseSend (snd (CloseSend (NewStreamTransport quiet_rwc))) =
     (Returned (Some ErrSendAlreadyClosed), snd (CloseSend (NewStreamTransport quiet_rwc))) \<and>
   fst (CloseRecv (snd (CloseSend (snd (CloseSend (NewStreamTransport quiet_rwc)))))) =
     Returned None \<and>
   close_count (snd (CloseRecv (snd (CloseSend (snd (CloseSend (NewStreamTransport quiet_rwc))))))) = 1 \<and>
   closes (snd (CloseRecv (snd (CloseSend (NewStreamTransport quiet_rwc))))) AND 2 = 2 \<and>
   CloseRecv (snd (CloseRecv (snd (CloseSend (NewStreamTransport quiet_rwc))))) =
     (Returned (Some ErrRecvAlreadyClosed),
      snd (CloseRecv (snd (CloseSend (NewStreamTransport quiet_rwc)))))"
  using second_close_rejected [of "snd (CloseSend (NewStreamTransport quiet_rwc))"]
        second_close_rejected [of "snd (CloseRecv (snd (CloseSend (NewStreamTransport quiet_rwc))))"]
  by (simp add: transport_defs quiet_rwc_def)

text \<open>
  C4: on a plain stream without \<open>CloseWrite\<close>, \<open>CloseRecv\<close> followed by
  \<open>CloseSend\<close> leaves the mask at 3 with both halves closed, yet the stream's \<open>Close\<close>
  has not been called: \<open>CloseSend\<close>, the call that saw both bits set, panicked before
  reaching it.
\<close>

theorem full_close_missed_without_CloseWrite:
  "fst (CloseRecv (NewStreamTransport plain_rwc)) = Returned None \<and>
   fst (CloseSend (snd (CloseRecv (NewStreamTransport plain_rwc)))) = Panic \<and>
   closes (snd (CloseSend (snd (CloseRecv (NewStreamTransport plain_rwc))))) = 3 \<and>
   close_count (snd (CloseSend (snd (CloseRecv (NewStreamTransport plain_rwc))))) = 0"
  by (simp add: transport_defs plain_rwc_def)

text \<open>
  Where the stream implements \<open>CloseWrite\<close>, one \<open>CloseSend\<close> and one \<open>CloseRecv\<close>
  on a new transport call the stream's \<open>Close\<close> exactly once, in the second of the two
  calls, in either order.
\<close>

lemma full_close_once_with_CloseWrite:
  assumes "implCloseWrite r"
  shows "close_count (snd (CloseSend (NewStreamTransport r))) = close_count (NewStreamTransport r)"
    and "close_count (snd (CloseRecv (snd (CloseSend (NewStreamTransport r))))) =
           close_count (NewStreamTransport r) + 1"
    and "close_count (snd (CloseRecv (NewStreamTransport r))) = close_count (NewStreamTransport r)"
    and "close_count (snd (CloseSend (snd (CloseRecv (NewStreamTransport r))))) =
           close_count (NewStreamTransport r) + 1"
  using assms by (simp_all add: transport_defs split: prod.splits)

text \<open>The mask only gains bits: no close call clears a bit that was set.\<close>

lemma or_absorb8: "(x::8 word) AND m = m \<Longrightarrow> x OR m = x"
  by (metis word_ao_absorbs(2) word_bw_comms(1))

lemma closes_CloseSend: "closes (snd (CloseSend s)) = closes s OR 1"
  by (auto simp: CloseSend_def invoke_def Let_def or_absorb8 split: prod.splits)

lemma closes_CloseRecv: "closes (snd (CloseRecv s)) = closes s OR 2"
  by (auto simp: CloseRecv_def recv_CloseRecv_def invoke_def Let_def or_absorb8
           split: prod.splits receiver.splits)

lemma closes_only_gains_bits:
  "closes (snd (CloseSend s)) AND closes s = closes s"
  "closes (snd (CloseRecv s)) AND closes s = closes s"
  by (simp_all add: closes_CloseSend closes_CloseRecv)

section \<open>Sending\<close>

text \<open>
  C5: on a transport whose stream supports \<open>SetWriteDeadline\<close>, the \<open>send\<close> function
  returned by \<open>NewMessage(ctx)\<close> makes exactly two calls on the stream, in this order:
  \<open>SetWriteDeadline\<close> with the deadline of \<open>ctx\<close>, or with the zero time when \<open>ctx\<close>
  has none, and then the encoding of the message. It returns what the encoding returned.
\<close>

theorem send_sets_deadline_then_encodes:
  "deadline s \<longrightarrow>
     calls (stream (snd (nm_send (NewMessage s0 ctx fresh) msg s))) =
       calls (stream s) @
         [SetWriteDeadline (case Deadline ctx of Some d \<Rightarrow> d | None \<Rightarrow> zero_time),
          Encode (frame_of msg)] \<and>
     fst (nm_send (NewMessage s0 ctx fresh) msg s) =
       as_error (respond (stream s)
         (calls (stream s) @
            [SetWriteDeadline (case Deadline ctx of Some d \<Rightarrow> d | None \<Rightarrow> zero_time)])
         (Encode (frame_of msg)))"
  by (auto simp: NewMessage_def send_def invoke_def Let_def split: prod.splits option.splits)

theorem send_sets_deadline_then_encodes_witness:
  "deadline (NewStreamTransport quiet_rwc) \<and>
   calls (stream (snd (nm_send (NewMessage (NewStreamTransport quiet_rwc) \<lparr>Deadline = Some 1700\<rparr>
                                  (no_message, None))
                        no_message (NewStreamTransport quiet_rwc)))) =
     [SetWriteDeadline 1700, Encode ([], Good NullPtr)] \<and>
   calls (stream (snd (nm_send (NewMessage (NewStreamTransport quiet_rwc) \<lparr>Deadline = None\<rparr>
                                  (no_message, None))
                        no_message (NewStreamTransport quiet_rwc)))) =
     [SetWriteDeadline 0, Encode ([], Good NullPtr)]"
  using send_sets_deadline_then_encodes
          [of "NewStreamTransport quiet_rwc" "NewStreamTransport quiet_rwc"
              "\<lparr>Deadline = Some 1700\<rparr>" "(no_message, None)" no_message]
        send_sets_deadline_then_encodes
          [of "NewStreamTransport quiet_rwc" "NewStreamTransport quiet_rwc"
              "\<lparr>Deadline = None\<rparr>" "(no_message, None)" no_message]
  by (simp add: NewStreamTransport_def quiet_rwc_def zero_time_def frame_of_def no_message_def)

text \<open>
  C9: \<open>NewMessage\<close> returns a nil error whatever the two allocations report, and the
  \<open>cancel\<close> it returns leaves the transport as it is: no call on the stream, the same
  mask. The last two conjuncts are an arena without room, where \<open>NewRootMessage\<close> does
  report an error, and \<open>NewMessage\<close> on it.
\<close>

theorem NewMessage_nil_error_cancel_noop:
  "nm_err (NewMessage s ctx fresh) = None \<and>
   nm_cancel (NewMessage s ctx fresh) s' = s' \<and>
   calls (stream (nm_cancel (NewMessage s ctx fresh) s')) = calls (stream s') \<and>
   closes (nm_cancel (NewMessage s ctx fresh) s') = closes s' \<and>
   snd (fst (NewRootMessage no_message)) = Some ''capnp: out of space'' \<and>
   nm_err (NewMessage s ctx (no_message, Some ''capnp: no segment'')) = None"
  by (simp add: NewMessage_def cancel_def Let_def NewRootMessage_def capnp_NewRootStruct_def
                capnp_NewStruct_def no_message_def words_of_def
           split: prod.splits)

end
